theory Spec2Isabelle
  imports
    Complex_Main
    "HOL-Library.Sublist"
    "HOL-Library.Char_ord"
    "HOL-Library.List_Lexorder"
    "HOL-Library.Product_Lexorder"
begin

section \<open>Exceptions, HTTP responses and the request log\<close>

text \<open>
  Every exception the Python code can raise on the modelled inputs is a value of
  \<open>error\<close>; a call returns \<open>Inl e\<close> where the source raises and \<open>Inr v\<close> where it
  returns \<open>v\<close>. \<open>ConfigError\<close> is the plain \<open>Exception\<close> raised by the constructor.
\<close>

datatype error =
    HTTPError
  | OverflowError
  | JSONDecodeError
  | KeyError
  | TypeError
  | IndexError
  | ValueError
  | AttributeError
  | ConfigError

text \<open>
  A response of the \<open>requests\<close> library: its status code and its decoded JSON body
  (\<open>None\<close> when the body is not JSON, so that \<open>response.json()\<close> raises). A request
  that gets no response at all (a connection error) is not modelled.
\<close>

record 'a http_response =
  status_code :: nat
  json_body :: "'a option"

text \<open>\<open>response.raise_for_status()\<close>: client and server error codes raise.\<close>

definition raise_for_status :: "'a http_response \<Rightarrow> error + unit" where
  "raise_for_status r =
     (if 400 \<le> status_code r \<and> status_code r < 600 then Inl HTTPError else Inr ())"

text \<open>\<open>raise_for_status()\<close> followed by \<open>return response.json()\<close>.\<close>

definition checked_json :: "'a http_response \<Rightarrow> error + 'a" where
  "checked_json r =
     (case raise_for_status r of
        Inl e \<Rightarrow> Inl e
      | Inr _ \<Rightarrow> (case json_body r of None \<Rightarrow> Inl JSONDecodeError | Some b \<Rightarrow> Inr b))"

subsection \<open>GraphQL payloads and the request log\<close>

text \<open>
  The four GraphQL documents the class posts, with their variables: the scenario query
  carries its query text (the site code is substituted into it), the others the
  scenario id or the data template id.
\<close>

datatype gql_payload =
    ScenariosQuery string
  | OrdersQuery int
  | AllocationsQuery int
  | EquipmentsQuery int

datatype request =
    POST string gql_payload
  | GET string

text \<open>
  A network call appends the request to a log and returns what the server answered:
  the log is the state threaded through every function that talks to the network.
\<close>

type_synonym 'a io = "request list \<Rightarrow> (error + 'a) \<times> request list"

definition io_bind :: "'a io \<Rightarrow> ('a \<Rightarrow> 'b io) \<Rightarrow> 'b io" where
  "io_bind m f = (\<lambda>lg. case m lg of
                     (Inl e, lg') \<Rightarrow> (Inl e, lg')
                   | (Inr x, lg') \<Rightarrow> f x lg')"

definition io_return :: "'a \<Rightarrow> 'a io" where
  "io_return x = (\<lambda>lg. (Inr x, lg))"

definition io_raise :: "error \<Rightarrow> 'a io" where
  "io_raise e = (\<lambda>lg. (Inl e, lg))"

definition io_lift :: "error + 'a \<Rightarrow> 'a io" where
  "io_lift r = (\<lambda>lg. (r, lg))"

section \<open>The priority map\<close>

text \<open>The class attribute \<open>_scheduler_priority_map\<close>, a dict literal.\<close>

definition scheduler_priority_map :: "(int \<times> string) list" where
  "scheduler_priority_map = [(1, ''High''), (2, ''Medium''), (3, ''Low'')]"

text \<open>\<open>self._scheduler_priority_map.get(x, '')\<close> on an integer key.\<close>

definition priority_label :: "int \<Rightarrow> string" where
  "priority_label x =
     (case map_of scheduler_priority_map x of Some l \<Rightarrow> l | None \<Rightarrow> '''')"

section \<open>The client object\<close>

text \<open>The attributes \<open>__init__\<close> sets on \<open>self\<close>.\<close>

record tillit =
  site :: string
  tenant :: string
  baseURL :: string
  baseURLScheduler :: string
  baseURLSchedulerGraphQL :: string
  scheduler_data_id :: int
  scheduler_scenario_id :: int
  authorization :: string

section \<open>The completed-orders lookup\<close>

text \<open>
  Python's \<open>range(start, stop, step)\<close> for a positive step, as the iteration produces
  it. (A zero step raises in Python; the code only uses the step 80.)
\<close>

function py_range :: "nat \<Rightarrow> nat \<Rightarrow> nat \<Rightarrow> nat list" where
  "py_range i n s = (if i < n \<and> 0 < s then i # py_range (i + s) n s else [])"
  by pat_completeness auto
termination
  by (relation "measure (\<lambda>(i, n, s). n - i)") auto

declare py_range.simps [simp del]

text \<open>The slice \<open>xs[i:j]\<close> for \<open>0 \<le> i \<le> j\<close>.\<close>

definition py_slice :: "'a list \<Rightarrow> nat \<Rightarrow> nat \<Rightarrow> 'a list" where
  "py_slice xs i j = take (j - i) (drop i xs)"

text \<open>\<open>[orderNumbers[i:i + 80] for i in range(0, len(orderNumbers), 80)]\<close>\<close>

definition batches :: "'a list \<Rightarrow> 'a list list" where
  "batches orderNumbers =
     map (\<lambda>i. py_slice orderNumbers i (i + 80)) (py_range 0 (length orderNumbers) 80)"

text \<open>\<open>sep.join(xs)\<close> on a list of strings.\<close>

fun join_str :: "string \<Rightarrow> string list \<Rightarrow> string" where
  "join_str sep [] = []"
| "join_str sep [x] = x"
| "join_str sep (x # y # ys) = x @ sep @ join_str sep (y # ys)"

text \<open>
  \<open>Series.unique().tolist()\<close>: the distinct values in order of first appearance.
\<close>

fun pd_unique :: "'a list \<Rightarrow> 'a list" where
  "pd_unique [] = []"
| "pd_unique (x # xs) = x # pd_unique (filter (\<lambda>y. y \<noteq> x) xs)"

text \<open>
  \<open>list(set(xs))\<close>: the distinct elements of \<open>xs\<close>. Python fixes no iteration order for a
  set of strings; the model enumerates them in some order and no result below depends
  on which.
\<close>

definition py_list_set :: "'a list \<Rightarrow> 'a list" where
  "py_list_set xs = remdups xs"

text \<open>
  The paging suffix both REST helpers append:
  \<open>url + ('&' if '?' in url else '?') + 'page=0&size=100000&sort=id,asc'\<close>.
\<close>

definition avoid_pagination :: "string \<Rightarrow> string" where
  "avoid_pagination url =
     url @ (if CHR ''?'' \<in> set url then ''&'' else ''?'') @ ''page=0&size=100000&sort=id,asc''"

text \<open>
  \<open>fetch_DO\<close> and \<open>fetch_scheduler\<close>: one GET, logged, then the status check and the
  JSON decoding. The server is the function \<open>srv\<close> from the URL to the response.
\<close>

definition fetch_DO :: "tillit \<Rightarrow> (string \<Rightarrow> 'a http_response) \<Rightarrow> string \<Rightarrow> 'a io" where
  "fetch_DO self srv endpoint =
     (\<lambda>lg. let url = avoid_pagination (baseURL self @ ''/'' @ endpoint)
            in (checked_json (srv url), lg @ [GET url]))"

definition fetch_scheduler :: "tillit \<Rightarrow> (string \<Rightarrow> 'a http_response) \<Rightarrow> string \<Rightarrow> 'a io" where
  "fetch_scheduler self srv endpoint =
     (\<lambda>lg. let url = avoid_pagination (baseURLScheduler self @ endpoint)
            in (checked_json (srv url), lg @ [GET url]))"

text \<open>
  A row of the execution system's order-instance listing; of its fields the code reads
  \<open>orderNumber\<close> only. The data frame built from a list of such objects has the column
  \<open>orderNumber\<close> exactly when the list is not empty.
\<close>

record order_instance =
  oi_orderNumber :: string

definition do_endpoint :: "string list \<Rightarrow> string" where
  "do_endpoint batch =
     ''core/order-instances?status.equals=COMPLETED&orderNumber.in='' @ join_str '','' batch"

text \<open>The body of the \<open>for batch in batches\<close> loop, with \<open>orders\<close> as accumulator.\<close>

fun completed_loop ::
  "tillit \<Rightarrow> (string \<Rightarrow> order_instance list http_response) \<Rightarrow> string list list \<Rightarrow>
   string list \<Rightarrow> string list io" where
  "completed_loop self srv [] orders lg = (Inr orders, lg)"
| "completed_loop self srv (batch # rest) orders lg =
     (case fetch_DO self srv (do_endpoint batch) lg of
        (Inl e, lg') \<Rightarrow> (Inl e, lg')
      | (Inr response, lg') \<Rightarrow>
          completed_loop self srv rest
            (if response \<noteq> [] then orders @ pd_unique (map oi_orderNumber response) else orders)
            lg')"

definition do_get_completed_orders ::
  "tillit \<Rightarrow> (string \<Rightarrow> order_instance list http_response) \<Rightarrow> string list \<Rightarrow> string list io" where
  "do_get_completed_orders self srv orderNumbers =
     io_bind (completed_loop self srv (batches orderNumbers) [])
       (\<lambda>orders. io_return (py_list_set orders))"

text \<open>The URL \<open>fetch_DO\<close> requests for one batch.\<close>

definition do_url :: "tillit \<Rightarrow> string list \<Rightarrow> string" where
  "do_url self batch = avoid_pagination (baseURL self @ ''/'' @ do_endpoint batch)"

section \<open>The scheduling service's GraphQL interface\<close>

text \<open>
  A JSON scalar that the code passes through without looking at it. A nullable field
  is an \<open>option\<close>, with \<open>None\<close> for JSON null (pandas' None, NaN and NA).
\<close>

datatype scalar = SInt int | SNum real | SStr string | SBool bool

subsection \<open>The objects the four queries select\<close>

text \<open>
  The scenario query selects \<open>id dataTemplate { id }\<close>. An id arrives as a JSON number,
  a JSON string or null; \<open>sc_dataTemplate\<close> is \<open>None\<close> for a null data template and
  otherwise holds the id of the nested object.
\<close>

datatype id_value = IdInt int | IdStr string | IdNull

record scenario_node =
  sc_id :: id_value
  sc_dataTemplate :: "id_value option"

text \<open>The order query: the order, its nested status, its items and its properties.\<close>

record order_status =
  st_status :: "string option"
  st_alias :: "scalar option"
  st_code :: "scalar option"

record order_item =
  it_id :: int
  it_invalid :: "scalar option"
  it_invalidReason :: "scalar option"
  it_allocated :: "scalar option"
  it_quantity :: "scalar option"
  it_quantityUnitOfMeasure :: "scalar option"
  it_operationsDefinitionClass :: "string option"

record order_property =
  pr_externalId :: "scalar option"
  pr_value :: "scalar option"

record order_node =
  od_id :: "scalar option"
  od_externalId :: string
  od_earliestStartDate :: "scalar option"
  od_dueDate :: "scalar option"
  od_priority :: "int option"
  od_notes :: "string option"
  od_status :: "order_status option"
  od_orderItems :: "order_item list option"
  od_orderProperties :: "order_property list option"

text \<open>
  The allocation query; of the nested assignments and changeover the fields the code
  reads. \<open>start\<close> and \<open>end\<close> are epoch milliseconds.
\<close>

record assignment =
  as_id :: "scalar option"
  as_resourceId :: int
  as_resourceType :: "scalar option"
  as_requirementId :: "scalar option"

record changeover =
  co_id :: "scalar option"
  co_duration :: "scalar option"

record allocation =
  al_id :: "scalar option"
  al_start :: int
  al_end :: int
  al_segmentId :: "scalar option"
  al_orderItemId :: int
  al_quantity :: "scalar option"
  al_duration :: "scalar option"
  al_expectedDuration :: "scalar option"
  al_durationLocked :: "scalar option"
  al_assignments :: "assignment list"
  al_changeover :: "changeover option"

text \<open>The equipment query selects \<open>id externalId description\<close>.\<close>

record equipment_node =
  eq_id :: int
  eq_externalId :: string
  eq_description :: "scalar option"

text \<open>
  The object under the key \<open>data\<close> of a GraphQL response body, by the field it holds:
  \<open>scenarios\<close>, \<open>getOrdersForScenario\<close>, \<open>getAllocations\<close> (an object whose
  \<open>allocations\<close> field is the list) or \<open>equipments\<close>. Each field may be null. A body
  whose \<open>data\<close> is itself null is \<open>None\<close> at the level above.
\<close>

datatype gql_data =
    ScenariosData "scenario_node list option"
  | OrdersData "order_node list option"
  | AllocationsData "allocation list option option"
  | EquipmentsData "equipment_node list option"

text \<open>
  The servers the client talks to: the GraphQL endpoint answers a POST of a payload to
  a URL, the execution system answers a GET of a URL.
\<close>

record transport =
  graphql_server :: "string \<Rightarrow> gql_payload \<Rightarrow> gql_data option http_response"
  do_server :: "string \<Rightarrow> order_instance list http_response"

subsection \<open>fetch_scheduler_graphql\<close>

definition fetch_scheduler_graphql ::
  "tillit \<Rightarrow> transport \<Rightarrow> gql_payload \<Rightarrow> gql_data option io" where
  "fetch_scheduler_graphql self w payload =
     (\<lambda>lg. let url = baseURLSchedulerGraphQL self
            in (checked_json (graphql_server w url payload), lg @ [POST url payload]))"

subsection \<open>The constructor\<close>

text \<open>
  \<open>payload.replace('SiteCode', self._site)\<close>: the query text holds \<open>SiteCode\<close> once.
\<close>

definition scenario_query :: "string \<Rightarrow> string" where
  "scenario_query site_code =
     ''query Scenarios { scenarios(where: { isLive: true, location: { code: \"'' @ site_code @
     ''\" } }) { id dataTemplate { id }}}''"

text \<open>
  Python's \<open>int(x)\<close> on an id: a number is itself, null raises TypeError, and a string is
  parsed by the built-in parser, taken here as the parameter \<open>parse_int\<close> (\<open>None\<close> where
  \<open>int\<close> raises ValueError).
\<close>

definition py_int :: "(string \<Rightarrow> int option) \<Rightarrow> id_value \<Rightarrow> error + int" where
  "py_int parse_int v =
     (case v of
        IdInt n \<Rightarrow> Inr n
      | IdStr s \<Rightarrow> (case parse_int s of None \<Rightarrow> Inl ValueError | Some n \<Rightarrow> Inr n)
      | IdNull \<Rightarrow> Inl TypeError)"

text \<open>
  \<open>_set_data_template\<close>. After \<open>data["data"]["scenarios"][0]\<close> has been read, \<open>data\<close> is a
  non-empty dict, so the guards \<open>if data else 0\<close> take their first branch. A body without
  the \<open>scenarios\<close> key raises KeyError, a null \<open>data\<close> or \<open>scenarios\<close> TypeError, an empty
  list IndexError, a null \<open>dataTemplate\<close> TypeError. The function returns \<open>self\<close> with
  both ids assigned.
\<close>

definition set_data_template ::
  "(string \<Rightarrow> int option) \<Rightarrow> transport \<Rightarrow> tillit \<Rightarrow> tillit io" where
  "set_data_template parse_int w self =
     io_bind (fetch_scheduler_graphql self w (ScenariosQuery (scenario_query (site self))))
       (\<lambda>data. io_lift
          (case data of
             None \<Rightarrow> Inl TypeError
           | Some (ScenariosData None) \<Rightarrow> Inl TypeError
           | Some (ScenariosData (Some [])) \<Rightarrow> Inl IndexError
           | Some (ScenariosData (Some (scenario # _))) \<Rightarrow>
               (case sc_dataTemplate scenario of
                  None \<Rightarrow> Inl TypeError
                | Some template_id \<Rightarrow>
                    (case py_int parse_int template_id of
                       Inl e \<Rightarrow> Inl e
                     | Inr data_id \<Rightarrow>
                         (case py_int parse_int (sc_id scenario) of
                            Inl e \<Rightarrow> Inl e
                          | Inr scenario_id \<Rightarrow>
                              Inr (self\<lparr>scheduler_data_id := data_id,
                                        scheduler_scenario_id := scenario_id\<rparr>))))
           | Some _ \<Rightarrow> Inl KeyError))"

text \<open>Decimal rendering of an integer, as an f-string does it.\<close>

function str_nat :: "nat \<Rightarrow> string" where
  "str_nat n =
     (if n < 10 then [char_of (48 + n)] else str_nat (n div 10) @ [char_of (48 + n mod 10)])"
  by pat_completeness auto
termination
  by (relation "measure id") auto

declare str_nat.simps [simp del]

definition str_int :: "int \<Rightarrow> string" where
  "str_int i = (if i < 0 then ''-'' @ str_nat (nat (- i)) else str_nat (nat i))"

text \<open>
  \<open>__init__\<close>: the attributes, then \<open>_set_data_template\<close>, then the check of the two ids.
  An exception leaves the caller without an object.
\<close>

definition TilliT_init ::
  "(string \<Rightarrow> int option) \<Rightarrow> transport \<Rightarrow> string \<Rightarrow> string \<Rightarrow> string \<Rightarrow> bool \<Rightarrow> tillit io" where
  "TilliT_init parse_int w site_code tenant_code authBase64 isStage =
     (let base = ''https://'' @ tenant_code @ ''.tillit'' @ (if isStage then ''-stage'' else '''') @
                 ''.cloud/au/api'';
          self = \<lparr>site = site_code, tenant = tenant_code, baseURL = base,
                  baseURLScheduler = base @ ''/scheduler'',
                  baseURLSchedulerGraphQL = base @ ''/scheduler/graphql'',
                  scheduler_data_id = 0, scheduler_scenario_id = 0,
                  authorization = ''Basic '' @ authBase64\<rparr>
      in io_bind (set_data_template parse_int w self)
           (\<lambda>self. if scheduler_data_id self > 0 \<and> scheduler_scenario_id self > 0
                    then io_return (self\<lparr>baseURLScheduler :=
                           baseURLScheduler self @ ''/'' @ site self @ ''/'' @
                           str_int (scheduler_data_id self)\<rparr>)
                    else io_raise ConfigError))"

text \<open>
  What the claim about construction calls the pair that scenario resolution yields: the
  (data-template id, scenario id) of the first scenario of a successful response, when
  both are present and integers.
\<close>

definition resolved_pair ::
  "(string \<Rightarrow> int option) \<Rightarrow> gql_data option http_response \<Rightarrow> (int \<times> int) option" where
  "resolved_pair parse_int r =
     (case checked_json r of
        Inr (Some (ScenariosData (Some (scenario # _)))) \<Rightarrow>
          (case sc_dataTemplate scenario of
             Some template_id \<Rightarrow>
               (case (py_int parse_int template_id, py_int parse_int (sc_id scenario)) of
                  (Inr d, Inr s) \<Rightarrow> Some (d, s)
                | _ \<Rightarrow> None)
           | None \<Rightarrow> None)
      | _ \<Rightarrow> None)"

text \<open>The URL and payload of the scenario request of a client for a tenant and site.\<close>

definition scenario_request :: "string \<Rightarrow> string \<Rightarrow> bool \<Rightarrow> request" where
  "scenario_request site_code tenant_code isStage =
     POST (''https://'' @ tenant_code @ ''.tillit'' @ (if isStage then ''-stage'' else '''') @
           ''.cloud/au/api/scheduler/graphql'')
          (ScenariosQuery (scenario_query site_code))"

definition scenario_response ::
  "transport \<Rightarrow> string \<Rightarrow> string \<Rightarrow> bool \<Rightarrow> gql_data option http_response" where
  "scenario_response w site_code tenant_code isStage =
     graphql_server w
       (''https://'' @ tenant_code @ ''.tillit'' @ (if isStage then ''-stage'' else '''') @
        ''.cloud/au/api/scheduler/graphql'')
       (ScenariosQuery (scenario_query site_code))"

section \<open>The order-fulfillment view\<close>

subsection \<open>The helpers for nested objects\<close>

text \<open>
  Modelled from the spec: the helpers \<open>extract\<close> and \<open>extract_fields\<close> are called by the
  class but defined outside the source file. By the specification \<open>extract(obj, f)\<close>
  returns \<open>obj[f]\<close> if \<open>obj\<close> is present and the null marker otherwise, and never raises;
  \<open>extract_fields(list, fields)\<close> returns the same-order list of objects holding only the
  named fields, and the empty list if the input is null or empty. The projection onto
  the named fields is the argument \<open>proj\<close>. The first is named \<open>extractField\<close> here, as
  in the specification.
\<close>

definition extractField :: "'a option \<Rightarrow> ('a \<Rightarrow> 'b option) \<Rightarrow> 'b option" where
  "extractField obj field = (case obj of None \<Rightarrow> None | Some x \<Rightarrow> field x)"

definition extract_fields :: "'a list option \<Rightarrow> ('a \<Rightarrow> 'b) \<Rightarrow> 'b list" where
  "extract_fields objs proj = (case objs of None \<Rightarrow> [] | Some xs \<Rightarrow> map proj xs)"

text \<open>The fields \<open>id, quantity, quantityUnitOfMeasure, operationsDefinitionClass\<close> of an item.\<close>

record item_fields =
  if_id :: int
  if_quantity :: "scalar option"
  if_quantityUnitOfMeasure :: "scalar option"
  if_operationsDefinitionClass :: "string option"

definition item_projection :: "order_item \<Rightarrow> item_fields" where
  "item_projection x =
     \<lparr>if_id = it_id x, if_quantity = it_quantity x,
      if_quantityUnitOfMeasure = it_quantityUnitOfMeasure x,
      if_operationsDefinitionClass = it_operationsDefinitionClass x\<rparr>"

text \<open>The fields \<open>externalId, value\<close> of an order property: all it has.\<close>

definition property_projection :: "order_property \<Rightarrow> order_property" where
  "property_projection x = \<lparr>pr_externalId = pr_externalId x, pr_value = pr_value x\<rparr>"

subsection \<open>Stage A: planned orders\<close>

text \<open>
  A row of the frame \<open>_scheduler_get_planned_order\<close> returns: the thirteen selected
  columns, \<open>externalId\<close> renamed to \<open>orderNumber\<close>.
\<close>

record planned_order =
  po_id :: "scalar option"
  po_orderNumber :: string
  po_earliestStartDate :: "scalar option"
  po_dueDate :: "scalar option"
  po_notes :: "string option"
  po_status :: "string option"
  po_orderItems :: "item_fields list"
  po_orderProperties :: "order_property list option"
  po_priority :: string
  po_orderItemsId :: int
  po_orderedQuantity :: "scalar option"
  po_orderUOM :: "scalar option"
  po_ProductCode :: string

text \<open>\<open>s.split(sep)[0]\<close>: the part of \<open>s\<close> before the first occurrence of \<open>sep\<close>.\<close>

fun split_first :: "string \<Rightarrow> string \<Rightarrow> string" where
  "split_first sep [] = []"
| "split_first sep (c # cs) = (if prefix sep (c # cs) then [] else c # split_first sep cs)"

text \<open>The values \<open>astype(np.int64)\<close> can hold.\<close>

definition int64 :: "int \<Rightarrow> bool" where
  "int64 n = (- (2 ^ 63) \<le> n \<and> n < 2 ^ 63)"

text \<open>\<open>x[0] if x else None\<close> on the projected item list of an order.\<close>

definition first_item :: "order_node \<Rightarrow> item_fields option" where
  "first_item order = (case extract_fields (od_orderItems order) item_projection of
                         [] \<Rightarrow> None | x # _ \<Rightarrow> Some x)"

text \<open>The status list of the \<open>excludeCompleted\<close> filter.\<close>

definition excluded_statuses :: "string list" where
  "excluded_statuses = [''COMPLETED'', ''SUSPENDED'', ''CANCELLED'', ''READY'', ''Complete'']"

text \<open>\<open>~data["status"].isin([...])\<close>: a null status is in no list.\<close>

definition status_kept :: "planned_order \<Rightarrow> bool" where
  "status_kept row = (case po_status row of None \<Rightarrow> True | Some s \<Rightarrow> s \<notin> set excluded_statuses)"

text \<open>One row of the frame, from an order, its first item and that item's class.\<close>

definition planned_row :: "order_node \<times> item_fields \<times> string \<Rightarrow> planned_order" where
  "planned_row x =
     (case x of (order, item, cls) \<Rightarrow>
        \<lparr>po_id = od_id order,
         po_orderNumber = od_externalId order,
         po_earliestStartDate = od_earliestStartDate order,
         po_dueDate = od_dueDate order,
         po_notes = od_notes order,
         po_status = extractField (od_status order) st_status,
         po_orderItems = extract_fields (od_orderItems order) item_projection,
         po_orderProperties =
           (case od_orderProperties order of
              Some (p # ps) \<Rightarrow> Some (extract_fields (Some (p # ps)) property_projection)
            | _ \<Rightarrow> None),
         po_priority = (case od_priority order of None \<Rightarrow> '''' | Some c \<Rightarrow> priority_label c),
         po_orderItemsId = if_id item,
         po_orderedQuantity = if_quantity item,
         po_orderUOM = if_quantityUnitOfMeasure item,
         po_ProductCode = split_first '' - '' cls\<rparr>)"

text \<open>
  The frame built from a non-null order list, column by column as the source does, so
  that the first failing column decides the exception: an empty list gives a frame
  without columns (KeyError on \<open>data['status']\<close>); an order without items gives a null
  \<open>orderItemsId\<close>, which \<open>astype(np.int64)\<close> rejects (a NaN among numbers with
  ValueError, a column of None with TypeError), as it does an id outside 64 bits; a
  null \<open>operationsDefinitionClass\<close> has no \<open>split\<close>; on null order properties
  \<open>pd.notna(x)\<close> is a plain bool, which has no \<open>any\<close>. Then the two optional filters.
\<close>

definition planned_order_frame ::
  "order_node list \<Rightarrow> bool \<Rightarrow> string list \<Rightarrow> error + planned_order list" where
  "planned_order_frame data excludeCompleted excludeItems =
     (if data = [] then Inl KeyError
      else case those (map first_item data) of
        None \<Rightarrow> if list_all (\<lambda>order. first_item order = None) data
                then Inl TypeError else Inl ValueError
      | Some items \<Rightarrow>
          if \<not> list_all (\<lambda>i. int64 (if_id i)) items then Inl OverflowError
          else case those (map if_operationsDefinitionClass items) of
            None \<Rightarrow> Inl AttributeError
          | Some classes \<Rightarrow>
              if list_ex (\<lambda>order. od_orderProperties order = None) data then Inl AttributeError
              else
                let rows = map planned_row (zip data (zip items classes));
                    rows = (if excludeCompleted then filter status_kept rows else rows);
                    rows = (if excludeItems \<noteq> []
                            then filter (\<lambda>r. po_ProductCode r \<notin> set excludeItems) rows
                            else rows)
                in Inr rows)"

text \<open>
  \<open>_scheduler_get_planned_order\<close>: a null \<open>getOrdersForScenario\<close> is returned as \<open>None\<close>.
\<close>

definition scheduler_get_planned_order ::
  "tillit \<Rightarrow> transport \<Rightarrow> bool \<Rightarrow> string list \<Rightarrow> planned_order list option io" where
  "scheduler_get_planned_order self w excludeCompleted excludeItems =
     io_bind (fetch_scheduler_graphql self w (OrdersQuery (scheduler_scenario_id self)))
       (\<lambda>body. io_lift
          (case body of
             None \<Rightarrow> Inl TypeError
           | Some (OrdersData None) \<Rightarrow> Inr None
           | Some (OrdersData (Some data)) \<Rightarrow>
               (case planned_order_frame data excludeCompleted excludeItems of
                  Inl e \<Rightarrow> Inl e
                | Inr rows \<Rightarrow> Inr (Some rows))
           | Some _ \<Rightarrow> Inl KeyError))"

subsection \<open>Stage B: scheduled allocations\<close>

text \<open>
  \<open>_scheduler_get_equipment\<close>: a null \<open>equipments\<close> is returned as \<open>None\<close>; an empty list
  gives a frame without the column to sort by.
\<close>

definition scheduler_get_equipment :: "tillit \<Rightarrow> transport \<Rightarrow> equipment_node list option io" where
  "scheduler_get_equipment self w =
     io_bind (fetch_scheduler_graphql self w (EquipmentsQuery (scheduler_data_id self)))
       (\<lambda>body. io_lift
          (case body of
             None \<Rightarrow> Inl TypeError
           | Some (EquipmentsData None) \<Rightarrow> Inr None
           | Some (EquipmentsData (Some data)) \<Rightarrow>
               if data = [] then Inl KeyError else Inr (Some (sort_key eq_externalId data))
           | Some _ \<Rightarrow> Inl KeyError))"

text \<open>
  A point in time, as the milliseconds after \<open>_schedulerStartDateEpoch\<close>
  (1970-01-01 00:00:00) that \<open>epoch + timedelta(seconds = int(x)/1000)\<close> adds.
\<close>

type_synonym datetime = int

text \<open>A row of the frame \<open>_scheduler_get_scheduled_order\<close> returns: nine columns.\<close>

record scheduled_order =
  so_orderItemId :: int
  so_StartDateTime :: datetime
  so_EndDateTime :: datetime
  so_ScheduledQuantity :: "scalar option"
  so_duration :: "scalar option"
  so_expectedDuration :: "scalar option"
  so_durationLocked :: "scalar option"
  so_Changeover_duration :: "scalar option"
  so_Equipment :: "string option"

definition scheduled_row :: "equipment_node list \<Rightarrow> allocation \<Rightarrow> scheduled_order" where
  "scheduled_row equipment a =
     (let resourceIds = map as_resourceId (al_assignments a);
          names = map eq_externalId (filter (\<lambda>e. eq_id e \<in> set resourceIds) equipment)
      in \<lparr>so_orderItemId = al_orderItemId a,
          so_StartDateTime = al_start a,
          so_EndDateTime = al_end a,
          so_ScheduledQuantity = al_quantity a,
          so_duration = al_duration a,
          so_expectedDuration = al_expectedDuration a,
          so_durationLocked = al_durationLocked a,
          so_Changeover_duration = extractField (al_changeover a) co_duration,
          so_Equipment = (if names \<noteq> [] then Some (join_str '','' names) else None)\<rparr>)"

text \<open>
  \<open>_scheduler_get_scheduled_order\<close>: a null \<open>allocations\<close> is returned as \<open>None\<close> (a null
  \<open>getAllocations\<close> cannot be subscripted); otherwise the equipment is fetched, and then
  an empty allocation list has no column \<open>start\<close>, and a missing equipment frame cannot
  be subscripted.
\<close>

definition scheduler_get_scheduled_order ::
  "tillit \<Rightarrow> transport \<Rightarrow> scheduled_order list option io" where
  "scheduler_get_scheduled_order self w =
     io_bind (fetch_scheduler_graphql self w (AllocationsQuery (scheduler_scenario_id self)))
       (\<lambda>body.
          case body of
            None \<Rightarrow> io_raise TypeError
          | Some (AllocationsData None) \<Rightarrow> io_raise TypeError
          | Some (AllocationsData (Some None)) \<Rightarrow> io_return None
          | Some (AllocationsData (Some (Some data))) \<Rightarrow>
              io_bind (scheduler_get_equipment self w)
                (\<lambda>equipment. io_lift
                   (if data = [] then Inl KeyError
                    else case equipment of
                      None \<Rightarrow> Inl TypeError
                    | Some eqs \<Rightarrow>
                        if \<not> list_all (\<lambda>a. int64 (al_orderItemId a)) data then Inl OverflowError
                        else Inr (Some (map (scheduled_row eqs) data))))
          | Some _ \<Rightarrow> io_raise KeyError)"

subsection \<open>Stage C: merge and overlay\<close>

text \<open>
  \<open>left.merge(right, how="inner", left_on=..., right_on=...)\<close>: every left row, in order,
  paired with every right row, in order, that has the same key.
\<close>

definition merge_inner :: "('l \<Rightarrow> 'k) \<Rightarrow> ('r \<Rightarrow> 'k) \<Rightarrow> 'l list \<Rightarrow> 'r list \<Rightarrow> ('l \<times> 'r) list" where
  "merge_inner left_on right_on left right =
     concat (map (\<lambda>l. map (Pair l) (filter (\<lambda>r. right_on r = left_on l) right)) left)"

text \<open>\<open>merged_df.loc[merged_df["orderNumber"].isin(doOrders), "status"] = "COMPLETED"\<close>\<close>

definition overlay_completed ::
  "string list \<Rightarrow> (planned_order \<times> scheduled_order) list \<Rightarrow> (planned_order \<times> scheduled_order) list" where
  "overlay_completed doOrders merged_df =
     map (\<lambda>(p, s). (if po_orderNumber p \<in> set doOrders
                     then p\<lparr>po_status := Some ''COMPLETED''\<rparr> else p, s)) merged_df"

text \<open>
  A row of the final view. Dropping the two join columns leaves twenty, which the
  assignment to \<open>merged_df.columns\<close> names by position.
\<close>

record order_view =
  ov_Id :: "scalar option"
  ov_OrderNumber :: string
  ov_EarliestStartDate :: "scalar option"
  ov_DueDate :: "scalar option"
  ov_Notes :: "string option"
  ov_Status :: "string option"
  ov_OrderItems :: "item_fields list"
  ov_OrderProperties :: "order_property list option"
  ov_Priority :: string
  ov_OrderedQuantity :: "scalar option"
  ov_OrderUOM :: "scalar option"
  ov_ProductCode :: string
  ov_StartDateTime :: datetime
  ov_EndDateTime :: datetime
  ov_ScheduledQuantity :: "scalar option"
  ov_Duration_Minutes :: "scalar option"
  ov_ExpectedDuration_Minutes :: "scalar option"
  ov_DurationLocked :: "scalar option"
  ov_ChangeoverDuration :: "scalar option"
  ov_Equipment :: "string option"

definition public_columns :: "planned_order \<times> scheduled_order \<Rightarrow> order_view" where
  "public_columns x =
     (case x of (p, s) \<Rightarrow>
        \<lparr>ov_Id = po_id p,
         ov_OrderNumber = po_orderNumber p,
         ov_EarliestStartDate = po_earliestStartDate p,
         ov_DueDate = po_dueDate p,
         ov_Notes = po_notes p,
         ov_Status = po_status p,
         ov_OrderItems = po_orderItems p,
         ov_OrderProperties = po_orderProperties p,
         ov_Priority = po_priority p,
         ov_OrderedQuantity = po_orderedQuantity p,
         ov_OrderUOM = po_orderUOM p,
         ov_ProductCode = po_ProductCode p,
         ov_StartDateTime = so_StartDateTime s,
         ov_EndDateTime = so_EndDateTime s,
         ov_ScheduledQuantity = so_ScheduledQuantity s,
         ov_Duration_Minutes = so_duration s,
         ov_ExpectedDuration_Minutes = so_expectedDuration s,
         ov_DurationLocked = so_durationLocked s,
         ov_ChangeoverDuration = so_Changeover_duration s,
         ov_Equipment = so_Equipment s\<rparr>)"

text \<open>
  \<open>scheduler_get_orders\<close>. Both stages are fetched before the merge; a \<open>None\<close> from
  Stage A has no \<open>merge\<close> (AttributeError) and a \<open>None\<close> from Stage B cannot be merged
  (TypeError).
\<close>

definition scheduler_get_orders ::
  "tillit \<Rightarrow> transport \<Rightarrow> bool \<Rightarrow> string list \<Rightarrow> order_view list io" where
  "scheduler_get_orders self w excludeCompleted excludeItems =
     io_bind (scheduler_get_planned_order self w excludeCompleted excludeItems)
       (\<lambda>plannedOrders.
     io_bind (scheduler_get_scheduled_order self w)
       (\<lambda>scheduledOrder.
          case plannedOrders of
            None \<Rightarrow> io_raise AttributeError
          | Some planned \<Rightarrow>
              (case scheduledOrder of
                 None \<Rightarrow> io_raise TypeError
               | Some scheduled \<Rightarrow>
                   (let merged_df = merge_inner po_orderItemsId so_orderItemId planned scheduled;
                        orderNumbers = pd_unique (map (\<lambda>(p, s). po_orderNumber p) merged_df)
                    in io_bind (do_get_completed_orders self (do_server w) orderNumbers)
                         (\<lambda>doOrders.
                            io_return (map public_columns
                                         (overlay_completed doOrders merged_df)))))))"

text \<open>The call with the default arguments \<open>excludeCompleted=True, excludeItems=[]\<close>.\<close>

definition scheduler_get_orders_default :: "tillit \<Rightarrow> transport \<Rightarrow> order_view list io" where
  "scheduler_get_orders_default self w = scheduler_get_orders self w True []"

section \<open>The BOM setup view\<close>

subsection \<open>The REST entity sets\<close>

text \<open>
  Modelled from the spec: the column layout of the entity sets behind the scheduler's
  REST endpoints is fixed by the service, not by the source file, which only names the
  join keys. By the specification's data model an Operation carries \<open>operationCode\<close>, a
  Route \<open>operationCode\<close> and \<open>routeCode\<close>, and a Segment, a SegmentEquipment and a
  SegmentMaterial \<open>operationCode\<close>, \<open>routeCode\<close> and \<open>segmentCode\<close>; only the entity
  named there carries each key. All other columns of a row are its \<open>more\<close> part, of an
  arbitrary type \<open>'x\<close>. A key is \<open>None\<close> where the JSON value is null.
\<close>

record operation =
  op_operationCode :: "string option"

record route =
  rt_operationCode :: "string option"
  rt_routeCode :: "string option"

record segment =
  sg_operationCode :: "string option"
  sg_routeCode :: "string option"
  sg_segmentCode :: "string option"

record segment_equipment =
  se_operationCode :: "string option"
  se_routeCode :: "string option"
  se_segmentCode :: "string option"

record segment_material =
  sm_operationCode :: "string option"
  sm_routeCode :: "string option"
  sm_segmentCode :: "string option"

text \<open>
  A material definition as \<open>_scheduler_get_materials\<close> reads it: the three columns it
  selects, \<open>materialGroup\<close> being a nested reference.
\<close>

record material_group =
  mg_externalId :: "string option"

record material_definition =
  md_externalId :: "string option"
  md_description :: "string option"
  md_materialGroup :: "material_group option"

text \<open>A row of the frame \<open>_scheduler_get_materials()\<close> returns, nulls filled with \<open>''\<close>.\<close>

record material_row =
  ml_externalId :: string
  ml_description :: string
  ml_materialGroup :: string

text \<open>The REST side of the scheduling service, one handler per entity set.\<close>

record 'x scheduler_rest =
  operations_server :: "string \<Rightarrow> 'x operation_scheme list http_response"
  routes_server :: "string \<Rightarrow> 'x route_scheme list http_response"
  material_definitions_server :: "string \<Rightarrow> material_definition list http_response"
  segments_server :: "string \<Rightarrow> 'x segment_scheme list http_response"
  segment_equipments_server :: "string \<Rightarrow> 'x segment_equipment_scheme list http_response"
  segment_materials_server :: "string \<Rightarrow> 'x segment_material_scheme list http_response"

text \<open>The class attribute \<open>_schedulerEndpoints\<close>; the code reads it at its own keys only.\<close>

definition schedulerEndpoints :: "(string \<times> string) list" where
  "schedulerEndpoints =
     [(''operations'', ''/operations''),
      (''routes'', ''/routes''),
      (''material_definitions'', ''/material-definitions''),
      (''materials_properties'', ''/material-properties''),
      (''segments'', ''/segments''),
      (''segment_equipments'', ''/segment-equipments''),
      (''segment_materials'', ''/segment-materials'')]"

definition scheduler_endpoint :: "string \<Rightarrow> string" where
  "scheduler_endpoint k = (case map_of schedulerEndpoints k of Some e \<Rightarrow> e | None \<Rightarrow> [])"

definition scheduler_get_operations ::
  "tillit \<Rightarrow> 'x scheduler_rest \<Rightarrow> 'x operation_scheme list io" where
  "scheduler_get_operations self w =
     fetch_scheduler self (operations_server w) (scheduler_endpoint ''operations'')"

definition scheduler_get_routes :: "tillit \<Rightarrow> 'x scheduler_rest \<Rightarrow> 'x route_scheme list io" where
  "scheduler_get_routes self w =
     fetch_scheduler self (routes_server w) (scheduler_endpoint ''routes'')"

definition fillna_empty :: "string option \<Rightarrow> string" where
  "fillna_empty v = (case v of None \<Rightarrow> '''' | Some s \<Rightarrow> s)"

text \<open>
  \<open>_scheduler_get_materials\<close> with its default \<open>includeProperties=False\<close>, as the BOM
  view calls it. An empty list gives a frame without the column \<open>materialGroup\<close>.
\<close>

definition scheduler_get_materials :: "tillit \<Rightarrow> 'x scheduler_rest \<Rightarrow> material_row list io" where
  "scheduler_get_materials self w =
     io_bind (fetch_scheduler self (material_definitions_server w)
                (scheduler_endpoint ''material_definitions''))
       (\<lambda>data. if data = [] then io_raise KeyError
               else io_return
                 (map (\<lambda>d. \<lparr>ml_externalId = fillna_empty (md_externalId d),
                              ml_description = fillna_empty (md_description d),
                              ml_materialGroup =
                                fillna_empty (extractField (md_materialGroup d) mg_externalId)\<rparr>)
                      data))"

definition scheduler_get_segments :: "tillit \<Rightarrow> 'x scheduler_rest \<Rightarrow> 'x segment_scheme list io" where
  "scheduler_get_segments self w =
     fetch_scheduler self (segments_server w) (scheduler_endpoint ''segments'')"

definition scheduler_get_equipments ::
  "tillit \<Rightarrow> 'x scheduler_rest \<Rightarrow> 'x segment_equipment_scheme list io" where
  "scheduler_get_equipments self w =
     fetch_scheduler self (segment_equipments_server w) (scheduler_endpoint ''segment_equipments'')"

definition scheduler_get_segment_materials ::
  "tillit \<Rightarrow> 'x scheduler_rest \<Rightarrow> 'x segment_material_scheme list io" where
  "scheduler_get_segment_materials self w =
     fetch_scheduler self (segment_materials_server w) (scheduler_endpoint ''segment_materials'')"

subsection \<open>The left-join chain\<close>

text \<open>
  \<open>left.merge(right, how="left", left_on=..., right_on=...)\<close>: every left row, in order,
  paired with every right row, in order, that has the same key, and with \<open>None\<close> (all
  right-hand columns null) if there is none. Null keys are equal to each other, as
  pandas matches them.
\<close>

definition merge_left ::
  "('l \<Rightarrow> 'k) \<Rightarrow> ('r \<Rightarrow> 'k) \<Rightarrow> 'l list \<Rightarrow> 'r list \<Rightarrow> ('l \<times> 'r option) list" where
  "merge_left left_on right_on left right =
     concat (map (\<lambda>l. case filter (\<lambda>r. right_on r = left_on l) right of
                        [] \<Rightarrow> [(l, None)]
                      | ms \<Rightarrow> map (\<lambda>r. (l, Some r)) ms) left)"

type_synonym 'x joined1 = "'x operation_scheme \<times> 'x route_scheme option"
type_synonym 'x joined2 = "'x joined1 \<times> material_row option"
type_synonym 'x joined3 = "'x joined2 \<times> 'x segment_scheme option"
type_synonym 'x joined4 = "'x joined3 \<times> 'x segment_equipment_scheme option"
type_synonym 'x joined5 = "'x joined4 \<times> 'x segment_material_scheme option"

text \<open>
  The key columns of the merged frame after each step: \<open>operationCode\<close> is the
  operation's, \<open>routeCode\<close> the joined route's and \<open>segmentCode\<close> the joined segment's
  (null where the join found none).
\<close>

definition key1 :: "'x operation_scheme \<Rightarrow> string option" where
  "key1 x = op_operationCode x"

definition key2 :: "'x joined1 \<Rightarrow> string option" where
  "key2 x = op_operationCode (fst x)"

definition key3 :: "'x joined2 \<Rightarrow> string option \<times> string option" where
  "key3 x = (op_operationCode (fst (fst x)), extractField (snd (fst x)) rt_routeCode)"

definition key4 :: "'x joined3 \<Rightarrow> string option \<times> string option \<times> string option" where
  "key4 x = (op_operationCode (fst (fst (fst x))), extractField (snd (fst (fst x))) rt_routeCode,
             extractField (snd x) sg_segmentCode)"

definition key5 :: "'x joined4 \<Rightarrow> string option \<times> string option \<times> string option" where
  "key5 x = key4 (fst x)"

text \<open>The five merges of \<open>scheduler_get_bom_setup\<close>, in the order of the source.\<close>

definition bom_merge1 :: "'x operation_scheme list \<Rightarrow> 'x route_scheme list \<Rightarrow> 'x joined1 list" where
  "bom_merge1 operations_df routes_df =
     merge_left key1 rt_operationCode operations_df routes_df"

definition bom_merge2 :: "'x joined1 list \<Rightarrow> material_row list \<Rightarrow> 'x joined2 list" where
  "bom_merge2 merged materials_df =
     merge_left key2 (\<lambda>m. Some (ml_externalId m)) merged materials_df"

definition bom_merge3 :: "'x joined2 list \<Rightarrow> 'x segment_scheme list \<Rightarrow> 'x joined3 list" where
  "bom_merge3 merged segments_df =
     merge_left key3 (\<lambda>s. (sg_operationCode s, sg_routeCode s)) merged segments_df"

definition bom_merge4 ::
  "'x joined3 list \<Rightarrow> 'x segment_equipment_scheme list \<Rightarrow> 'x joined4 list" where
  "bom_merge4 merged equipments_df =
     merge_left key4 (\<lambda>e. (se_operationCode e, se_routeCode e, se_segmentCode e))
       merged equipments_df"

definition bom_merge5 ::
  "'x joined4 list \<Rightarrow> 'x segment_material_scheme list \<Rightarrow> 'x joined5 list" where
  "bom_merge5 merged segment_materials_df =
     merge_left key5 (\<lambda>m. (sm_operationCode m, sm_routeCode m, sm_segmentCode m))
       merged segment_materials_df"

definition bom_join ::
  "'x operation_scheme list \<Rightarrow> 'x route_scheme list \<Rightarrow> material_row list \<Rightarrow>
   'x segment_scheme list \<Rightarrow> 'x segment_equipment_scheme list \<Rightarrow>
   'x segment_material_scheme list \<Rightarrow> 'x joined5 list" where
  "bom_join operations_df routes_df materials_df segments_df equipments_df segment_materials_df =
     bom_merge5
       (bom_merge4
          (bom_merge3
             (bom_merge2 (bom_merge1 operations_df routes_df) materials_df)
             segments_df)
          equipments_df)
       segment_materials_df"

text \<open>
  What the left-join semantics of the specification asks of a step with left input
  \<open>left\<close>, right input \<open>right\<close> and output \<open>out\<close>: no fewer rows than \<open>left\<close>; every left
  row present; every output row a left row with a matching right row, or with null
  right-hand fields when no right row matches; and an unmatched left row present with
  null right-hand fields.
\<close>

definition left_join_semantics ::
  "('l \<Rightarrow> 'k) \<Rightarrow> ('r \<Rightarrow> 'k) \<Rightarrow> 'l list \<Rightarrow> 'r list \<Rightarrow> ('l \<times> 'r option) list \<Rightarrow> bool" where
  "left_join_semantics left_on right_on left right out \<longleftrightarrow>
     length left \<le> length out \<and>
     (\<forall>l\<in>set left. \<exists>r. (l, r) \<in> set out) \<and>
     (\<forall>(l, r)\<in>set out. l \<in> set left \<and>
        (case r of
           None \<Rightarrow> \<forall>x\<in>set right. right_on x \<noteq> left_on l
         | Some x \<Rightarrow> x \<in> set right \<and> right_on x = left_on l)) \<and>
     (\<forall>l\<in>set left. (\<forall>x\<in>set right. right_on x \<noteq> left_on l) \<longrightarrow> (l, None) \<in> set out)"

subsection \<open>Derived columns\<close>

text \<open>The nested references the derived columns are extracted from.\<close>

record route_ref =
  rr_routeCode :: "string option"

record equipment_class =
  ec_externalId :: "string option"
  ec_description :: "string option"

record material_ref =
  mr_externalId :: "string option"
  mr_description :: "string option"

text \<open>
  The columns of the merged frame that the code reads by name. Which entity set
  supplies a name after the suffixing of the five merges depends on the column layout
  of the REST service, so the reading of these columns off a joined row is a parameter
  (\<open>named_columns\<close>) of the view. The columns cast to \<open>string\<close> hold strings or null,
  those cast to \<open>float\<close> numbers or null; \<open>fixedDuration\<close> and \<open>rate\<close> hold any scalar.
  Numbers are exact reals here: the rounding of IEEE doubles is not modelled.
\<close>

record bom_merged =
  bm_quantity :: "real option"
  bm_operationCode :: "string option"
  bm_externalId :: "string option"
  bm_description :: "string option"
  bm_materialGroup :: "string option"
  bm_segmentCode :: "string option"
  bm_route :: "route_ref option"
  bm_equipmentClass :: "equipment_class option"
  bm_materialDefinition :: "material_ref option"
  bm_quantity_segmentMaterial :: "real option"
  bm_quantityUnitOfMeasure :: "string option"
  bm_materialUse :: "string option"
  bm_fixedDuration :: "scalar option"
  bm_rate :: "scalar option"

text \<open>
  \<open>Series.replace(["NaN", "null", "", np.nan], 0)\<close> on one value: the three strings and
  a missing value become the number 0.
\<close>

definition replace_missing :: "scalar option \<Rightarrow> scalar option" where
  "replace_missing v =
     (case v of
        None \<Rightarrow> Some (SInt 0)
      | Some (SStr s) \<Rightarrow> if s \<in> set [''NaN'', ''null'', ''''] then Some (SInt 0) else Some (SStr s)
      | Some x \<Rightarrow> Some x)"

text \<open>
  \<open>pd.to_numeric(..., errors='coerce')\<close> on one value: a number is itself, a string is
  parsed by pandas' numeric parser, taken here as the parameter \<open>parse_float\<close> (\<open>None\<close>
  where it rejects the string), and what cannot be parsed becomes NaN.
\<close>

definition to_numeric_coerce :: "(string \<Rightarrow> real option) \<Rightarrow> scalar option \<Rightarrow> real option" where
  "to_numeric_coerce parse_float v =
     (case v of
        None \<Rightarrow> None
      | Some (SInt n) \<Rightarrow> Some (of_int n)
      | Some (SNum x) \<Rightarrow> Some x
      | Some (SBool b) \<Rightarrow> Some (if b then 1 else 0)
      | Some (SStr s) \<Rightarrow> parse_float s)"

text \<open>\<open>.replace(["NaN", "null", "", np.nan, None], '')\<close> on one extracted description.\<close>

definition replace_blank :: "string option \<Rightarrow> string option" where
  "replace_blank v =
     (case v of
        None \<Rightarrow> Some ''''
      | Some s \<Rightarrow> if s \<in> set [''NaN'', ''null'', ''''] then Some '''' else Some s)"

text \<open>A row of the final view: the seventeen selected columns under their labels.\<close>

record bom_row =
  br_Quantity :: "real option"
  br_Operation_Code :: "string option"
  br_Operation_External_ID :: "string option"
  br_Operation_Description :: "string option"
  br_Operation_Material_Group :: "string option"
  br_Segment :: "string option"
  br_Route :: "string option"
  br_Equipment_Class_ID :: "string option"
  br_Equipment_Class :: "string option"
  br_Material_Code :: "string option"
  br_Material_Description :: "string option"
  br_Material_Quantity :: "real option"
  br_Material_Unit_of_Measure :: "string option"
  br_Material_Use :: "string option"
  br_Fixed_Duration :: "real option"
  br_Rate :: "real option"
  br_Rate_per_Hour :: "real option"

text \<open>
  The derived columns, the casts and the selection on one row of the merged frame.
  \<open>rateHour\<close> is \<open>rate * 60 * 60\<close>, NaN where \<open>rate\<close> is.
\<close>

definition derive_row :: "(string \<Rightarrow> real option) \<Rightarrow> bom_merged \<Rightarrow> bom_row" where
  "derive_row parse_float m =
     (let route = extractField (bm_route m) rr_routeCode;
          equipmentClassId = extractField (bm_equipmentClass m) ec_externalId;
          equipmentClass = replace_blank (extractField (bm_equipmentClass m) ec_description);
          materialId = extractField (bm_materialDefinition m) mr_externalId;
          material = extractField (bm_materialDefinition m) mr_description;
          fixedDuration = to_numeric_coerce parse_float (replace_missing (bm_fixedDuration m));
          rate = to_numeric_coerce parse_float (replace_missing (bm_rate m));
          rateHour = map_option (\<lambda>r. r * 60 * 60) rate
      in \<lparr>br_Quantity = bm_quantity m,
          br_Operation_Code = bm_operationCode m,
          br_Operation_External_ID = bm_externalId m,
          br_Operation_Description = bm_description m,
          br_Operation_Material_Group = bm_materialGroup m,
          br_Segment = bm_segmentCode m,
          br_Route = route,
          br_Equipment_Class_ID = equipmentClassId,
          br_Equipment_Class = equipmentClass,
          br_Material_Code = materialId,
          br_Material_Description = material,
          br_Material_Quantity = bm_quantity_segmentMaterial m,
          br_Material_Unit_of_Measure = bm_quantityUnitOfMeasure m,
          br_Material_Use = bm_materialUse m,
          br_Fixed_Duration = fixedDuration,
          br_Rate = rate,
          br_Rate_per_Hour = rateHour\<rparr>)"

subsection \<open>Projection, renaming and sorting\<close>

definition selected_columns :: "string list" where
  "selected_columns =
     [''quantity'', ''operationCode'', ''externalId'', ''description'', ''materialGroup'',
      ''segmentCode'', ''route'', ''equipmentClassId'',
      ''equipmentClass'', ''materialId'', ''material'', ''quantity_segmentMaterial'',
      ''quantityUnitOfMeasure'', ''materialUse'', ''fixedDuration'', ''rate'', ''rateHour'']"

text \<open>The dict passed to \<open>rename(columns=...)\<close>.\<close>

definition bom_labels :: "(string \<times> string) list" where
  "bom_labels =
     [(''operationCode'', ''Operation Code''),
      (''externalId'', ''Operation External ID''),
      (''description'', ''Operation Description''),
      (''materialGroup'', ''Operation Material Group''),
      (''segmentCode'', ''Segment''),
      (''route'', ''Route''),
      (''quantity'', ''Quantity''),
      (''quantity_segmentMaterial'', ''Material Quantity''),
      (''quantityUnitOfMeasure'', ''Material Unit of Measure''),
      (''materialUse'', ''Material Use''),
      (''equipmentClass'', ''Equipment Class''),
      (''equipmentClassId'', ''Equipment Class ID''),
      (''materialId'', ''Material Code''),
      (''material'', ''Material Description''),
      (''fixedDuration'', ''Fixed Duration''),
      (''rate'', ''Rate''),
      (''rateHour'', ''Rate per Hour'')]"

text \<open>\<open>DataFrame.rename(columns=d)\<close> on the column names: a name not in \<open>d\<close> stays.\<close>

definition rename_columns :: "(string \<times> string) list \<Rightarrow> string list \<Rightarrow> string list" where
  "rename_columns d cols = map (\<lambda>c. case map_of d c of Some l \<Rightarrow> l | None \<Rightarrow> c) cols"

text \<open>
  The sort key of \<open>sort_values(by=["Operation Code", "Segment", "Route", "Material
  Code"])\<close>: ascending in each column, a null after every string, earlier columns first.
  The sort is stable.
\<close>

definition nulls_last :: "string option \<Rightarrow> bool \<times> string" where
  "nulls_last v = (case v of None \<Rightarrow> (True, []) | Some s \<Rightarrow> (False, s))"

definition bom_sort_key ::
  "bom_row \<Rightarrow> (bool \<times> string) \<times> (bool \<times> string) \<times> (bool \<times> string) \<times> (bool \<times> string)" where
  "bom_sort_key r =
     (nulls_last (br_Operation_Code r), nulls_last (br_Segment r),
      nulls_last (br_Route r), nulls_last (br_Material_Code r))"

record bom_view =
  bv_columns :: "string list"
  bv_rows :: "bom_row list"

text \<open>Lines 412 to 465 of the source: from the merged frame to the final view.\<close>

definition bom_view_of ::
  "(string \<Rightarrow> real option) \<Rightarrow> ('j \<Rightarrow> bom_merged) \<Rightarrow> 'j list \<Rightarrow> bom_view" where
  "bom_view_of parse_float named_columns merged_df =
     \<lparr>bv_columns = rename_columns bom_labels selected_columns,
      bv_rows = sort_key bom_sort_key (map (\<lambda>j. derive_row parse_float (named_columns j)) merged_df)\<rparr>"

text \<open>
  \<open>scheduler_get_bom_setup\<close>: the six fetches in the order of the source, then the
  merges, which raise KeyError on a frame built from an empty list (it has no key
  column), then the derived columns, the projection and the sort.
\<close>

definition scheduler_get_bom_setup ::
  "(string \<Rightarrow> real option) \<Rightarrow> ('x joined5 \<Rightarrow> bom_merged) \<Rightarrow> tillit \<Rightarrow> 'x scheduler_rest \<Rightarrow>
   bom_view io" where
  "scheduler_get_bom_setup parse_float named_columns self w =
     io_bind (scheduler_get_operations self w) (\<lambda>operations_df.
     io_bind (scheduler_get_routes self w) (\<lambda>routes_df.
     io_bind (scheduler_get_materials self w) (\<lambda>materials_df.
     io_bind (scheduler_get_segments self w) (\<lambda>segments_df.
     io_bind (scheduler_get_equipments self w) (\<lambda>equipments_df.
     io_bind (scheduler_get_segment_materials self w) (\<lambda>segment_materials_df.
       if operations_df = [] \<or> routes_df = [] \<or> segments_df = [] \<or> equipments_df = [] \<or>
          segment_materials_df = []
       then io_raise KeyError
       else io_return
              (bom_view_of parse_float named_columns
                 (bom_join operations_df routes_df materials_df segments_df equipments_df
                    segment_materials_df))))))))"


section \<open>Sample inputs\<close>

text \<open>Concrete inputs on which the results below are evaluated.\<close>

definition sample_client :: tillit where
  "sample_client =
     \<lparr>site = ''S1'', tenant = ''acme'',
      baseURL = ''https://acme.tillit.cloud/au/api'',
      baseURLScheduler = ''https://acme.tillit.cloud/au/api/scheduler/S1/5'',
      baseURLSchedulerGraphQL = ''https://acme.tillit.cloud/au/api/scheduler/graphql'',
      scheduler_data_id = 5, scheduler_scenario_id = 9,
      authorization = ''Basic abc''\<rparr>"

text \<open>An execution system that reports order \<open>A\<close> completed, twice, for every batch.\<close>

definition sample_do_server :: "string \<Rightarrow> order_instance list http_response" where
  "sample_do_server url =
     \<lparr>status_code = 200,
      json_body = Some [\<lparr>oi_orderNumber = ''A''\<rparr>, \<lparr>oi_orderNumber = ''A''\<rparr>]\<rparr>"

text \<open>
  A scheduling service with one live scenario (id 9, data template \<open>"5"\<close>), three orders
  and three allocations: order \<open>ORD-1\<close> (in progress) has two allocations of its item 11,
  \<open>ORD-2\<close> has none, \<open>ORD-3\<close> (already COMPLETED for the planner) has one. The execution
  system reports \<open>ORD-1\<close> completed.
\<close>

definition sample_parse_int :: "string \<Rightarrow> int option" where
  "sample_parse_int s = (if s = ''5'' then Some 5 else None)"

definition sample_order :: "int \<Rightarrow> string \<Rightarrow> string \<Rightarrow> int \<Rightarrow> int \<Rightarrow> order_node" where
  "sample_order n number st item_id prio =
     \<lparr>od_id = Some (SInt n), od_externalId = number,
      od_earliestStartDate = Some (SStr ''2025-01-01''), od_dueDate = None,
      od_priority = Some prio, od_notes = None,
      od_status = Some \<lparr>st_status = Some st, st_alias = None, st_code = None\<rparr>,
      od_orderItems =
        Some [\<lparr>it_id = item_id, it_invalid = Some (SBool False), it_invalidReason = None,
               it_allocated = Some (SBool True), it_quantity = Some (SInt 100),
               it_quantityUnitOfMeasure = Some (SStr ''kg''),
               it_operationsDefinitionClass = Some ''P1 - Widget''\<rparr>],
      od_orderProperties = Some []\<rparr>"

definition sample_orders :: "order_node list" where
  "sample_orders =
     [sample_order 1 ''ORD-1'' ''IN_PROGRESS'' 11 1,
      sample_order 2 ''ORD-2'' ''PLANNED'' 22 2,
      sample_order 3 ''ORD-3'' ''COMPLETED'' 33 7]"

definition sample_allocation :: "int \<Rightarrow> int \<Rightarrow> int \<Rightarrow> allocation" where
  "sample_allocation item_id start resource =
     \<lparr>al_id = None, al_start = start, al_end = start + 3600000, al_segmentId = None,
      al_orderItemId = item_id, al_quantity = Some (SInt 50), al_duration = Some (SInt 60),
      al_expectedDuration = Some (SInt 60), al_durationLocked = Some (SBool False),
      al_assignments = [\<lparr>as_id = None, as_resourceId = resource, as_resourceType = None,
                          as_requirementId = None\<rparr>],
      al_changeover = None\<rparr>"

definition sample_allocations :: "allocation list" where
  "sample_allocations =
     [sample_allocation 11 0 1, sample_allocation 11 3600000 2, sample_allocation 33 0 1]"

definition sample_equipment :: "equipment_node list" where
  "sample_equipment =
     [\<lparr>eq_id = 1, eq_externalId = ''MIXER'', eq_description = None\<rparr>,
      \<lparr>eq_id = 2, eq_externalId = ''FILLER'', eq_description = None\<rparr>]"

definition sample_graphql :: "string \<Rightarrow> gql_payload \<Rightarrow> gql_data option http_response" where
  "sample_graphql url payload =
     \<lparr>status_code = 200,
      json_body = Some (Some
        (case payload of
           ScenariosQuery q \<Rightarrow>
             ScenariosData (Some [\<lparr>sc_id = IdInt 9, sc_dataTemplate = Some (IdStr ''5'')\<rparr>])
         | OrdersQuery i \<Rightarrow> OrdersData (Some sample_orders)
         | AllocationsQuery i \<Rightarrow> AllocationsData (Some (Some sample_allocations))
         | EquipmentsQuery i \<Rightarrow> EquipmentsData (Some sample_equipment)))\<rparr>"

definition sample_transport :: transport where
  "sample_transport =
     \<lparr>graphql_server = sample_graphql,
      do_server = (\<lambda>url. \<lparr>status_code = 200,
                            json_body = Some [\<lparr>oi_orderNumber = ''ORD-1''\<rparr>]\<rparr>)\<rparr>"

text \<open>The same service when its live scenario carries the ids 0.\<close>

definition unresolved_transport :: transport where
  "unresolved_transport =
     sample_transport\<lparr>graphql_server := (\<lambda>url payload.
        \<lparr>status_code = 200,
         json_body = Some (Some (ScenariosData
           (Some [\<lparr>sc_id = IdInt 0, sc_dataTemplate = Some (IdInt 0)\<rparr>])))\<rparr>)\<rparr>"



text \<open>The two stages and the view of the sample service, without the status filter.\<close>

definition sample_planned :: "planned_order list" where
  "sample_planned =
     (case fst (scheduler_get_planned_order sample_client sample_transport False [] []) of
        Inr (Some rows) \<Rightarrow> rows | _ \<Rightarrow> [])"

definition sample_scheduled :: "scheduled_order list" where
  "sample_scheduled =
     (case fst (scheduler_get_scheduled_order sample_client sample_transport []) of
        Inr (Some rows) \<Rightarrow> rows | _ \<Rightarrow> [])"

definition sample_view :: "order_view list" where
  "sample_view =
     (case fst (scheduler_get_orders sample_client sample_transport False [] []) of
        Inr rows \<Rightarrow> rows | _ \<Rightarrow> [])"

text \<open>The view of the sample service under the default arguments.\<close>

definition sample_default_view :: "order_view list" where
  "sample_default_view =
     (case fst (scheduler_get_orders_default sample_client sample_transport []) of
        Inr rows \<Rightarrow> rows | _ \<Rightarrow> [])"

text \<open>
  A REST service with two operations, of which \<open>OP-A\<close> has a route with two segments.
  The other columns of a row are an association list from column name to value; the
  segment equipment of segment \<open>S1\<close> has the fixed duration \<open>"abc"\<close> and the rate
  \<open>"2.5"\<close>, that of \<open>S2\<close> a null fixed duration and the rate 2.
\<close>

type_synonym other_columns = "(string \<times> scalar option) list"

definition sample_operations :: "other_columns operation_scheme list" where
  "sample_operations =
     [\<lparr>op_operationCode = Some ''OP-B'', \<dots> = []\<rparr>,
      \<lparr>op_operationCode = Some ''OP-A'', \<dots> = []\<rparr>]"

definition sample_routes :: "other_columns route_scheme list" where
  "sample_routes =
     [\<lparr>rt_operationCode = Some ''OP-A'', rt_routeCode = Some ''R1'', \<dots> = []\<rparr>]"

definition sample_material_definitions :: "material_definition list" where
  "sample_material_definitions =
     [\<lparr>md_externalId = Some ''OP-A'', md_description = Some ''Widget'',
       md_materialGroup = Some \<lparr>mg_externalId = Some ''G1''\<rparr>\<rparr>]"

definition sample_segments :: "other_columns segment_scheme list" where
  "sample_segments =
     [\<lparr>sg_operationCode = Some ''OP-A'', sg_routeCode = Some ''R1'',
       sg_segmentCode = Some ''S2'', \<dots> = []\<rparr>,
      \<lparr>sg_operationCode = Some ''OP-A'', sg_routeCode = Some ''R1'',
       sg_segmentCode = Some ''S1'', \<dots> = []\<rparr>]"

definition sample_segment_equipments :: "other_columns segment_equipment_scheme list" where
  "sample_segment_equipments =
     [\<lparr>se_operationCode = Some ''OP-A'', se_routeCode = Some ''R1'',
       se_segmentCode = Some ''S1'',
       \<dots> = [(''fixedDuration'', Some (SStr ''abc'')), (''rate'', Some (SStr ''2.5''))]\<rparr>,
      \<lparr>se_operationCode = Some ''OP-A'', se_routeCode = Some ''R1'',
       se_segmentCode = Some ''S2'',
       \<dots> = [(''fixedDuration'', None), (''rate'', Some (SInt 2))]\<rparr>]"

definition sample_segment_materials :: "other_columns segment_material_scheme list" where
  "sample_segment_materials =
     [\<lparr>sm_operationCode = Some ''OP-A'', sm_routeCode = Some ''R1'',
       sm_segmentCode = Some ''S1'', \<dots> = []\<rparr>]"

definition sample_rest :: "other_columns scheduler_rest" where
  "sample_rest =
     \<lparr>operations_server = (\<lambda>url. \<lparr>status_code = 200, json_body = Some sample_operations\<rparr>),
      routes_server = (\<lambda>url. \<lparr>status_code = 200, json_body = Some sample_routes\<rparr>),
      material_definitions_server =
        (\<lambda>url. \<lparr>status_code = 200, json_body = Some sample_material_definitions\<rparr>),
      segments_server = (\<lambda>url. \<lparr>status_code = 200, json_body = Some sample_segments\<rparr>),
      segment_equipments_server =
        (\<lambda>url. \<lparr>status_code = 200, json_body = Some sample_segment_equipments\<rparr>),
      segment_materials_server =
        (\<lambda>url. \<lparr>status_code = 200, json_body = Some sample_segment_materials\<rparr>)\<rparr>"

text \<open>The value of a named other column of an optional row: null if either is absent.\<close>

definition other_column :: "other_columns option \<Rightarrow> string \<Rightarrow> scalar option" where
  "other_column row name =
     (case row of None \<Rightarrow> None
      | Some cols \<Rightarrow> (case map_of cols name of None \<Rightarrow> None | Some v \<Rightarrow> v))"

text \<open>
  The named columns of the sample service's merged frame: the keys, the material group
  of the joined material, and the fixed duration and rate of the joined segment
  equipment.
\<close>

definition sample_named_columns :: "other_columns joined5 \<Rightarrow> bom_merged" where
  "sample_named_columns j =
     (case j of (((((operation, route), material), segment), equipment), segment_material) \<Rightarrow>
        \<lparr>bm_quantity = None,
         bm_operationCode = op_operationCode operation,
         bm_externalId = None,
         bm_description = None,
         bm_materialGroup = map_option ml_materialGroup material,
         bm_segmentCode = extractField segment sg_segmentCode,
         bm_route = map_option (\<lambda>r. \<lparr>rr_routeCode = rt_routeCode r\<rparr>) route,
         bm_equipmentClass = None,
         bm_materialDefinition = None,
         bm_quantity_segmentMaterial = None,
         bm_quantityUnitOfMeasure = None,
         bm_materialUse = None,
         bm_fixedDuration =
           other_column (map_option segment_equipment.more equipment) ''fixedDuration'',
         bm_rate = other_column (map_option segment_equipment.more equipment) ''rate''\<rparr>)"

text \<open>A numeric parser that reads \<open>2.5\<close> and rejects every other string, \<open>abc\<close> among them.\<close>

definition sample_parse_float :: "string \<Rightarrow> real option" where
  "sample_parse_float s = (if s = ''2.5'' then Some (5 / 2) else None)"

definition sample_bom_view :: bom_view where
  "sample_bom_view =
     (case fst (scheduler_get_bom_setup sample_parse_float sample_named_columns
                  sample_client sample_rest []) of
        Inr view \<Rightarrow> view
      | Inl e \<Rightarrow> \<lparr>bv_columns = [], bv_rows = []\<rparr>)"

section \<open>Results\<close>

subsection \<open>The request log and the bind\<close>

lemma io_bind_Inr:
  "io_bind m f lg = (Inr y, lg') \<longleftrightarrow>
     (\<exists>x l1. m lg = (Inr x, l1) \<and> f x l1 = (Inr y, lg'))"
  by (auto simp: io_bind_def split: prod.splits sum.splits)

lemma io_bind_Inl:
  "io_bind m f lg = (Inl e, lg') \<longleftrightarrow>
     (m lg = (Inl e, lg') \<or> (\<exists>x l1. m lg = (Inr x, l1) \<and> f x l1 = (Inl e, lg')))"
  by (auto simp: io_bind_def split: prod.splits sum.splits)

subsection \<open>Priority labels\<close>

text \<open>
  C9. The priority mapping is total over the integers: 1 gives High, 2 gives Medium,
  3 gives Low, and every other integer gives the empty string.
\<close>

theorem priority_label_total:
  "priority_label 1 = ''High'' \<and> priority_label 2 = ''Medium'' \<and> priority_label 3 = ''Low'' \<and>
   (x \<notin> {1, 2, 3} \<longrightarrow> priority_label x = '''')"
  by (simp add: priority_label_def scheduler_priority_map_def)

theorem priority_label_total_witness:
  "(7::int) \<notin> {1, 2, 3} \<and> priority_label 7 = '''' \<and> priority_label 2 = ''Medium''"
  using priority_label_total [of 7] by simp

subsection \<open>The completed-orders lookup\<close>

lemma length_py_range: "0 < s \<Longrightarrow> length (py_range i n s) = (n - i + s - 1) div s"
proof (induction i n s rule: py_range.induct)
  case (1 i n s)
  show ?case
  proof (cases "i < n")
    case True
    have eq: "(n - i + s - 1) div s = Suc ((n - (i + s) + s - 1) div s)" if "s < n - i"
    proof -
      have "n - i + s - 1 = (n - (i + s) + s - 1) + s" using that by simp
      then show ?thesis using 1(2) by (metis div_add_self2 Suc_eq_plus1 less_numeral_extra(3))
    qed
    show ?thesis
    proof (cases "s < n - i")
      case True
      with 1 \<open>i < n\<close> eq show ?thesis
        by (subst py_range.simps) (simp only: if_True simp_thms list.size length_Cons)
    next
      case False
      from False \<open>i < n\<close> have "n - i + s - 1 = (n - i - 1) + s" "n - i - 1 < s" by simp_all
      moreover have "(d + s) div s = 1" if "d < s" for d :: nat using that by simp
      ultimately have "(n - i + s - 1) div s = 1" by metis
      moreover from False have "\<not> i + s < n" by arith
      then have "py_range (i + s) n s = []"
        by (subst py_range.simps) simp
      ultimately have "py_range (i + s) n s = []" "(n - i + s - 1) div s = 1" by simp_all
      with \<open>i < n\<close> 1(2) show ?thesis by (subst py_range.simps) simp
    qed
  next
    case False
    then show ?thesis using 1 by (subst py_range.simps) simp
  qed
qed

lemma concat_py_range:
  "0 < s \<Longrightarrow> concat (map (\<lambda>j. take s (drop j xs)) (py_range i (length xs) s)) = drop i xs"
proof (induction i "length xs" s rule: py_range.induct)
  case (1 i s)
  show ?case
  proof (cases "i < length xs")
    case True
    have "take s (drop i xs) @ drop (i + s) xs = drop i xs"
      by (metis append_take_drop_id drop_drop add.commute)
    with 1 True show ?thesis
      by (subst py_range.simps) simp
  next
    case False
    then show ?thesis by (subst py_range.simps) simp
  qed
qed

lemma py_range_bound: "j \<in> set (py_range i n s) \<Longrightarrow> i \<le> j \<and> j < n"
proof (induction i n s rule: py_range.induct)
  case (1 i n s)
  then show ?case
    by (subst (asm) (2) py_range.simps) (auto split: if_splits)
qed

lemma pd_unique_set: "set (pd_unique xs) = set xs"
  by (induction xs rule: pd_unique.induct) auto

lemma pd_unique_distinct: "distinct (pd_unique xs)"
  by (induction xs rule: pd_unique.induct) (auto simp: pd_unique_set)

lemma fetch_DO_eq:
  "fetch_DO self srv (do_endpoint b) lg = (checked_json (srv (do_url self b)), lg @ [GET (do_url self b)])"
  by (simp add: fetch_DO_def do_url_def Let_def)

lemma completed_loop_log_ok:
  "completed_loop self srv bs orders lg = (Inr res, lg') \<Longrightarrow>
     lg' = lg @ map (\<lambda>b. GET (do_url self b)) bs"
proof (induction bs arbitrary: orders lg)
  case Nil
  then show ?case by simp
next
  case (Cons b bs)
  from Cons.prems obtain orders' where
    "completed_loop self srv bs orders' (lg @ [GET (do_url self b)]) = (Inr res, lg')"
    by (auto simp: fetch_DO_eq split: sum.splits)
  from Cons.IH[OF this] show ?case by simp
qed

lemma completed_loop_log_prefix:
  "completed_loop self srv bs orders lg = (r, lg') \<Longrightarrow>
     \<exists>k\<le>length bs. lg' = lg @ map (\<lambda>b. GET (do_url self b)) (take k bs)"
proof (induction bs arbitrary: orders lg)
  case Nil
  then show ?case by simp
next
  case (Cons b bs)
  show ?case
  proof (cases "checked_json (srv (do_url self b))")
    case (Inl e)
    with Cons.prems have "lg' = lg @ map (\<lambda>b. GET (do_url self b)) (take 1 (b # bs))"
      by (auto simp: fetch_DO_eq)
    then show ?thesis by (intro exI[of _ 1]) simp
  next
    case (Inr v)
    with Cons.prems obtain orders' where
      "completed_loop self srv bs orders' (lg @ [GET (do_url self b)]) = (r, lg')"
      by (auto simp: fetch_DO_eq)
    from Cons.IH[OF this] obtain k where "k \<le> length bs"
      "lg' = (lg @ [GET (do_url self b)]) @ map (\<lambda>b. GET (do_url self b)) (take k bs)" by blast
    then show ?thesis by (intro exI[of _ "Suc k"]) simp
  qed
qed

lemma completed_loop_returns:
  "\<forall>b\<in>set bs. \<exists>v. checked_json (srv (do_url self b)) = Inr v \<Longrightarrow>
     \<exists>res lg'. completed_loop self srv bs orders lg = (Inr res, lg')"
proof (induction bs arbitrary: orders lg)
  case Nil
  then show ?case by simp
next
  case (Cons b bs)
  then obtain v where "checked_json (srv (do_url self b)) = Inr v" by auto
  with Cons show ?case by (simp add: fetch_DO_eq)
qed

lemma completed_loop_set:
  "completed_loop self srv bs orders lg = (Inr res, lg') \<Longrightarrow>
     set res = set orders \<union>
       (\<Union>b\<in>set bs. case checked_json (srv (do_url self b)) of
                        Inr v \<Rightarrow> oi_orderNumber ` set v | Inl _ \<Rightarrow> {})"
proof (induction bs arbitrary: orders lg)
  case Nil
  then show ?case by simp
next
  case (Cons b bs)
  from Cons.prems obtain v where v: "checked_json (srv (do_url self b)) = Inr v"
    and run: "completed_loop self srv bs
       (if v \<noteq> [] then orders @ pd_unique (map oi_orderNumber v) else orders)
       (lg @ [GET (do_url self b)]) = (Inr res, lg')"
    by (auto simp: fetch_DO_eq split: sum.splits)
  from Cons.IH[OF run] v show ?case
    by (auto simp: pd_unique_set split: if_splits)
qed

lemma batches_concat: "concat (batches xs) = xs"
  using concat_py_range[of 80 xs 0] by (simp add: batches_def py_slice_def)

lemma batches_size: "b \<in> set (batches xs) \<Longrightarrow> b \<noteq> [] \<and> length b \<le> 80"
  by (auto simp: batches_def py_slice_def dest: py_range_bound)

lemma batches_length: "length (batches xs) = (length xs + 79) div 80"
  using length_py_range[of 80 0 "length xs"] by (simp add: batches_def)

lemma batches_ceiling: "int (length (batches xs)) = \<lceil>real (length xs) / 80\<rceil>"
proof -
  have "\<lceil>real (length xs) / 80\<rceil> = \<lceil>real_of_int (int (length xs)) / real_of_int 80\<rceil>" by simp
  also have "\<dots> = - ((- int (length xs)) div 80)"
    by (simp only: ceiling_divide_eq_div) 
  also have "\<dots> = int ((length xs + 79) div 80)" by (simp add: zdiv_int)
  finally show ?thesis by (simp add: batches_length)
qed

text \<open>
  C6. The completed-orders lookup cuts its input list into consecutive slices of at most
  80 (their concatenation is the input), \<open>\<lceil>N / 80\<rceil>\<close> of them, none empty. A lookup that
  returns has issued exactly one GET per batch, in batch order, and returns a list
  without duplicates holding the order numbers of all responses. It returns whenever
  every batch request succeeds; a failed request ends the loop, so the requests issued
  are always an initial segment of the batch requests. The empty list issues no request.
\<close>

theorem do_get_completed_orders_batched:
  fixes orderNumbers :: "string list"
  shows
  "concat (batches orderNumbers) = orderNumbers \<and>
   (\<forall>b\<in>set (batches orderNumbers). b \<noteq> [] \<and> length b \<le> 80) \<and>
   int (length (batches orderNumbers)) = \<lceil>real (length orderNumbers) / 80\<rceil> \<and>
   (do_get_completed_orders self srv orderNumbers lg = (Inr result, lg') \<longrightarrow>
      lg' = lg @ map (\<lambda>b. GET (do_url self b)) (batches orderNumbers) \<and>
      int (length lg') = int (length lg) + \<lceil>real (length orderNumbers) / 80\<rceil> \<and>
      distinct result \<and>
      set result = (\<Union>b\<in>set (batches orderNumbers).
                      case checked_json (srv (do_url self b)) of
                        Inr v \<Rightarrow> oi_orderNumber ` set v | Inl _ \<Rightarrow> {})) \<and>
   ((\<forall>b\<in>set (batches orderNumbers). \<exists>v. checked_json (srv (do_url self b)) = Inr v) \<longrightarrow>
      (\<exists>res l. do_get_completed_orders self srv orderNumbers lg = (Inr res, l))) \<and>
   (\<exists>k\<le>length (batches orderNumbers).
      snd (do_get_completed_orders self srv orderNumbers lg) =
        lg @ map (\<lambda>b. GET (do_url self b)) (take k (batches orderNumbers))) \<and>
   do_get_completed_orders self srv [] lg = (Inr [], lg)"
proof (intro conjI impI)
  show "concat (batches orderNumbers) = orderNumbers" by (rule batches_concat)
  show "\<forall>b\<in>set (batches orderNumbers). b \<noteq> [] \<and> length b \<le> 80"
    using batches_size by blast
  show len: "int (length (batches orderNumbers)) = \<lceil>real (length orderNumbers) / 80\<rceil>"
    by (rule batches_ceiling)
  show "do_get_completed_orders self srv [] lg = (Inr [], lg)"
    by (simp add: do_get_completed_orders_def io_bind_def io_return_def batches_def
        py_range.simps py_list_set_def)
  {
    assume "do_get_completed_orders self srv orderNumbers lg = (Inr result, lg')"
    then obtain orders where
      run: "completed_loop self srv (batches orderNumbers) [] lg = (Inr orders, lg')"
      and res: "result = py_list_set orders"
      by (auto simp: do_get_completed_orders_def io_bind_Inr io_return_def)
    show l: "lg' = lg @ map (\<lambda>b. GET (do_url self b)) (batches orderNumbers)"
      using completed_loop_log_ok[OF run] .
    show "int (length lg') = int (length lg) + \<lceil>real (length orderNumbers) / 80\<rceil>"
      unfolding l using len by simp
    show "distinct result" by (simp add: res py_list_set_def)
    show "set result = (\<Union>b\<in>set (batches orderNumbers).
                      case checked_json (srv (do_url self b)) of
                        Inr v \<Rightarrow> oi_orderNumber ` set v | Inl _ \<Rightarrow> {})"
      using completed_loop_set[OF run] by (simp add: res py_list_set_def)
  }
  {
    assume "\<forall>b\<in>set (batches orderNumbers). \<exists>v. checked_json (srv (do_url self b)) = Inr v"
    from completed_loop_returns[OF this, of "[]" lg]
    show "\<exists>res l. do_get_completed_orders self srv orderNumbers lg = (Inr res, l)"
      by (auto simp: do_get_completed_orders_def io_bind_def io_return_def)
  }
  obtain r l where rl: "completed_loop self srv (batches orderNumbers) [] lg = (r, l)"
    by (cases "completed_loop self srv (batches orderNumbers) [] lg")
  from completed_loop_log_prefix[OF rl] obtain k where
    "k \<le> length (batches orderNumbers)"
    "l = lg @ map (\<lambda>b. GET (do_url self b)) (take k (batches orderNumbers))" by blast
  moreover have "snd (do_get_completed_orders self srv orderNumbers lg) = l"
    using rl by (cases r) (simp_all add: do_get_completed_orders_def io_bind_def io_return_def)
  ultimately show "\<exists>k\<le>length (batches orderNumbers).
      snd (do_get_completed_orders self srv orderNumbers lg) =
        lg @ map (\<lambda>b. GET (do_url self b)) (take k (batches orderNumbers))" by auto
qed

theorem do_get_completed_orders_batched_witness:
  "list_all (\<lambda>b. checked_json (sample_do_server (do_url sample_client b)) =
                   Inr [\<lparr>oi_orderNumber = ''A''\<rparr>, \<lparr>oi_orderNumber = ''A''\<rparr>])
     (batches (replicate 81 ''A'')) \<and>
   do_get_completed_orders sample_client sample_do_server (replicate 81 ''A'') [] =
     (Inr [''A''],
      map (\<lambda>b. GET (do_url sample_client b)) (batches (replicate 81 ''A''))) \<and>
   length (batches (replicate 81 ''A'')) = 2"
proof -
  let ?xs = "replicate 81 ''A''"
  let ?run = "do_get_completed_orders sample_client sample_do_server ?xs []"
  have ok: "list_all (\<lambda>b. checked_json (sample_do_server (do_url sample_client b)) =
                   Inr [\<lparr>oi_orderNumber = ''A''\<rparr>, \<lparr>oi_orderNumber = ''A''\<rparr>]) (batches ?xs)"
    by (simp add: list_all_iff sample_do_server_def checked_json_def raise_for_status_def)
  have res: "fst ?run = Inr [''A'']"
    by code_simp
  have len: "length (batches ?xs) = 2"
    by code_simp
  have run: "?run = (Inr [''A''], snd ?run)"
    using res by (metis prod.collapse)
  from do_get_completed_orders_batched
         [of ?xs sample_client sample_do_server "[]" "[''A'']" "snd ?run"] run
  have "snd ?run = map (\<lambda>b. GET (do_url sample_client b)) (batches ?xs)"
    by simp
  with run ok len show ?thesis by simp
qed

subsection \<open>The constructor\<close>

lemma fetch_scheduler_graphql_eq:
  "fetch_scheduler_graphql self w p lg =
     (checked_json (graphql_server w (baseURLSchedulerGraphQL self) p),
      lg @ [POST (baseURLSchedulerGraphQL self) p])"
  by (simp add: fetch_scheduler_graphql_def Let_def)

lemma set_data_template_log:
  "set_data_template P w self lg = (r, lg') \<Longrightarrow>
     lg' = lg @ [POST (baseURLSchedulerGraphQL self) (ScenariosQuery (scenario_query (site self)))]"
  by (auto simp: set_data_template_def io_bind_def io_lift_def fetch_scheduler_graphql_eq
      split: sum.splits)

lemma set_data_template_Inr:
  "set_data_template P w self lg = (Inr self', lg') \<Longrightarrow>
     resolved_pair P (graphql_server w (baseURLSchedulerGraphQL self)
        (ScenariosQuery (scenario_query (site self)))) =
       Some (scheduler_data_id self', scheduler_scenario_id self') \<and>
     self' = self\<lparr>scheduler_data_id := scheduler_data_id self',
                  scheduler_scenario_id := scheduler_scenario_id self'\<rparr>"
  by (auto simp: set_data_template_def io_bind_def io_lift_def fetch_scheduler_graphql_eq
      resolved_pair_def split: sum.splits option.splits gql_data.splits list.splits)

lemma set_data_template_resolved:
  "resolved_pair P (graphql_server w (baseURLSchedulerGraphQL self)
        (ScenariosQuery (scenario_query (site self)))) = Some (d, s) \<Longrightarrow>
   fst (set_data_template P w self lg) =
     Inr (self\<lparr>scheduler_data_id := d, scheduler_scenario_id := s\<rparr>)"
  by (auto simp: set_data_template_def io_bind_def io_lift_def fetch_scheduler_graphql_eq
      resolved_pair_def split: sum.splits option.splits gql_data.splits list.splits)

text \<open>
  C7. Construction ends with the scenario resolution: an object is returned only if the
  response to the scenario query yields a (data-template id, scenario id) pair with
  both ids strictly positive, which the object then holds; if the response yields no
  such pair (an id absent, not an integer, or not positive, or the request failed),
  construction raises, no object is returned, and the scenario query is the only
  request that has been made.
\<close>

theorem init_requires_positive_pair:
  "(TilliT_init P w s t a st lg = (Inr self, lg') \<longrightarrow>
      resolved_pair P (scenario_response w s t st) =
        Some (scheduler_data_id self, scheduler_scenario_id self) \<and>
      0 < scheduler_data_id self \<and> 0 < scheduler_scenario_id self \<and>
      lg' = lg @ [scenario_request s t st]) \<and>
   ((\<nexists>d sc. resolved_pair P (scenario_response w s t st) = Some (d, sc) \<and> 0 < d \<and> 0 < sc) \<longrightarrow>
      (\<exists>e. TilliT_init P w s t a st lg = (Inl e, lg @ [scenario_request s t st])))"
proof (intro conjI impI)
  let ?base = "''https://'' @ t @ ''.tillit'' @ (if st then ''-stage'' else '''') @ ''.cloud/au/api''"
  let ?self = "\<lparr>site = s, tenant = t, baseURL = ?base,
                  baseURLScheduler = ?base @ ''/scheduler'',
                  baseURLSchedulerGraphQL = ?base @ ''/scheduler/graphql'',
                  scheduler_data_id = 0, scheduler_scenario_id = 0,
                  authorization = ''Basic '' @ a\<rparr>"
  have init: "TilliT_init P w s t a st =
     io_bind (set_data_template P w ?self)
           (\<lambda>self. if scheduler_data_id self > 0 \<and> scheduler_scenario_id self > 0
                    then io_return (self\<lparr>baseURLScheduler :=
                           baseURLScheduler self @ ''/'' @ site self @ ''/'' @
                           str_int (scheduler_data_id self)\<rparr>)
                    else io_raise ConfigError)"
    by (simp add: TilliT_init_def Let_def)
  have req: "POST (baseURLSchedulerGraphQL ?self) (ScenariosQuery (scenario_query (site ?self))) =
      scenario_request s t st"
    by (simp add: scenario_request_def)
  have resp: "graphql_server w (baseURLSchedulerGraphQL ?self)
        (ScenariosQuery (scenario_query (site ?self))) = scenario_response w s t st"
    by (simp add: scenario_response_def)
  {
    assume ok: "TilliT_init P w s t a st lg = (Inr self, lg')"
    then obtain self1 l1 where
      sdt: "set_data_template P w ?self lg = (Inr self1, l1)" and
      pos: "0 < scheduler_data_id self1 \<and> 0 < scheduler_scenario_id self1" and
      fin: "self = self1\<lparr>baseURLScheduler :=
                           baseURLScheduler self1 @ ''/'' @ site self1 @ ''/'' @
                           str_int (scheduler_data_id self1)\<rparr>" and l: "lg' = l1"
      unfolding init io_bind_Inr
      by (auto simp: io_return_def io_raise_def split: if_splits)
    from set_data_template_Inr[OF sdt] resp fin
    show "resolved_pair P (scenario_response w s t st) =
        Some (scheduler_data_id self, scheduler_scenario_id self)" by simp
    from pos fin show "0 < scheduler_data_id self" "0 < scheduler_scenario_id self" by simp_all
    from set_data_template_log[OF sdt] req l show "lg' = lg @ [scenario_request s t st]" by simp
  }
  {
    assume no: "\<nexists>d sc. resolved_pair P (scenario_response w s t st) = Some (d, sc) \<and> 0 < d \<and> 0 < sc"
    obtain r l where rl: "set_data_template P w ?self lg = (r, l)"
      by (cases "set_data_template P w ?self lg")
    from set_data_template_log[OF rl] req have l: "l = lg @ [scenario_request s t st]" by simp
    show "\<exists>e. TilliT_init P w s t a st lg = (Inl e, lg @ [scenario_request s t st])"
    proof (cases r)
      case (Inl e)
      with rl l show ?thesis unfolding init by (simp add: io_bind_def)
    next
      case (Inr self1)
      with rl set_data_template_Inr[of P w ?self lg self1 l] resp no
      have "\<not> (0 < scheduler_data_id self1 \<and> 0 < scheduler_scenario_id self1)"
        by auto
      with rl Inr l show ?thesis unfolding init by (auto simp: io_bind_def io_raise_def)
    qed
  }
qed

theorem init_requires_positive_pair_witness:
  "resolved_pair sample_parse_int (scenario_response unresolved_transport ''S1'' ''acme'' False) =
     Some (0, 0) \<and>
   TilliT_init sample_parse_int unresolved_transport ''S1'' ''acme'' ''abc'' False [] =
     (Inl ConfigError, [scenario_request ''S1'' ''acme'' False]) \<and>
   fst (TilliT_init sample_parse_int sample_transport ''S1'' ''acme'' ''abc'' False []) =
     Inr sample_client"
proof -
  have r: "resolved_pair sample_parse_int
             (scenario_response unresolved_transport ''S1'' ''acme'' False) = Some (0, 0)"
    by code_simp
  then have "\<nexists>d sc. resolved_pair sample_parse_int
             (scenario_response unresolved_transport ''S1'' ''acme'' False) = Some (d, sc) \<and>
             0 < d \<and> 0 < sc"
    by simp
  with init_requires_positive_pair
         [of sample_parse_int unresolved_transport "''S1''" "''acme''" "''abc''" False "[]"]
  obtain e where e: "TilliT_init sample_parse_int unresolved_transport ''S1'' ''acme'' ''abc'' False [] =
      (Inl e, [] @ [scenario_request ''S1'' ''acme'' False])"
    by blast
  have "fst (TilliT_init sample_parse_int unresolved_transport ''S1'' ''acme'' ''abc'' False []) =
      Inl ConfigError"
    by code_simp
  with e have "e = ConfigError" by simp
  moreover have "fst (TilliT_init sample_parse_int sample_transport ''S1'' ''acme'' ''abc'' False []) =
     Inr sample_client"
    by code_simp
  ultimately show ?thesis using r e by simp
qed

subsection \<open>GraphQL errors\<close>





subsection \<open>The order-fulfillment view\<close>

lemma scheduler_get_orders_Inr:
  "scheduler_get_orders self w ec ei lg = (Inr view, lg') \<longleftrightarrow>
     (\<exists>planned scheduled doOrders l1 l2.
        scheduler_get_planned_order self w ec ei lg = (Inr (Some planned), l1) \<and>
        scheduler_get_scheduled_order self w l1 = (Inr (Some scheduled), l2) \<and>
        do_get_completed_orders self (do_server w)
          (pd_unique (map (\<lambda>(p, s). po_orderNumber p)
             (merge_inner po_orderItemsId so_orderItemId planned scheduled))) l2 =
          (Inr doOrders, lg') \<and>
        view = map public_columns (overlay_completed doOrders
                 (merge_inner po_orderItemsId so_orderItemId planned scheduled)))"
proof -
  obtain r1 l1 where s1: "scheduler_get_planned_order self w ec ei lg = (r1, l1)"
    by (cases "scheduler_get_planned_order self w ec ei lg")
  obtain r2 l2 where s2: "scheduler_get_scheduled_order self w l1 = (r2, l2)"
    by (cases "scheduler_get_scheduled_order self w l1")
  show ?thesis
  proof (cases r1)
    case (Inl e)
    with s1 show ?thesis by (simp add: scheduler_get_orders_def io_bind_def)
  next
    case r1: (Inr po)
    show ?thesis
    proof (cases r2)
      case (Inl e)
      with s1 s2 r1 show ?thesis by (simp add: scheduler_get_orders_def io_bind_def)
    next
      case r2: (Inr so)
      show ?thesis
      proof (cases po)
        case None
        with s1 s2 r1 r2 show ?thesis
          by (simp add: scheduler_get_orders_def io_bind_def io_raise_def)
      next
        case po: (Some planned)
        show ?thesis
        proof (cases so)
          case None
          with s1 s2 r1 r2 po show ?thesis
            by (simp add: scheduler_get_orders_def io_bind_def io_raise_def)
        next
          case (Some scheduled)
          with s1 s2 r1 r2 po show ?thesis
            by (auto simp: scheduler_get_orders_def io_bind_def io_return_def Let_def
                split: prod.splits sum.splits)
        qed
      qed
    qed
  qed
qed

lemma view_rows:
  "map public_columns (overlay_completed doOrders (merge_inner kl kr planned scheduled)) =
     concat (map (\<lambda>p. map public_columns (overlay_completed doOrders
                          (map (Pair p) (filter (\<lambda>s. kr s = kl p) scheduled)))) planned)"
  by (simp add: merge_inner_def overlay_completed_def map_concat comp_def)

lemma ov_Id_row:
  "r \<in> set (map public_columns (overlay_completed doOrders (map (Pair p) ss))) \<Longrightarrow>
     ov_Id r = po_id p \<and> ov_OrderNumber r = po_orderNumber p"
  by (auto simp: overlay_completed_def public_columns_def)

lemma filter_concat_distinct_key:
  assumes "distinct (map k xs)" and "p \<in> set xs"
      and "\<And>q r. q \<in> set xs \<Longrightarrow> r \<in> set (f q) \<Longrightarrow> g r = k q"
  shows "filter (\<lambda>r. g r = k p) (concat (map f xs)) = f p"
  using assms
proof (induction xs)
  case Nil
  then show ?case by simp
next
  case (Cons x xs)
  have g: "g r = k q" if "q \<in> set (x # xs)" "r \<in> set (f q)" for q r
    using Cons.prems(3) that by blast
  have own: "filter (\<lambda>r. g r = k q) (f q) = f q" if "q \<in> set (x # xs)" for q
    using g[OF that] by (simp add: filter_id_conv)
  have other: "filter (\<lambda>r. g r = k p) (f q) = []" if "q \<in> set (x # xs)" "k q \<noteq> k p" for q
    using g[OF that(1)] that(2) by (simp add: filter_empty_conv)
  show ?case
  proof (cases "x = p")
    case True
    from Cons.prems(1) True have "k p \<notin> k ` set xs" by simp
    then have ne: "k q \<noteq> k p" if "q \<in> set xs" for q using that by (metis imageI)
    have "filter (\<lambda>r. g r = k p) (concat (map f xs)) = concat (map (\<lambda>q. []) xs)"
      unfolding filter_concat map_map comp_def
      by (rule arg_cong[where f = concat], rule map_cong) (simp_all add: other ne)
    then have "filter (\<lambda>r. g r = k p) (concat (map f xs)) = []" by simp
    with own[of p] True show ?thesis by simp
  next
    case False
    with Cons.prems have p: "p \<in> set xs" and "k x \<noteq> k p" by auto
    then have "filter (\<lambda>r. g r = k p) (f x) = []" by (intro other) simp_all
    moreover have "filter (\<lambda>r. g r = k p) (concat (map f xs)) = f p"
      using Cons.prems(1) p g by (intro Cons.IH) simp_all
    ultimately show ?thesis by simp
  qed
qed

text \<open>
  C1. The view is the inner join of the Stage A rows with the Stage B rows on
  \<open>orderItemsId = orderItemId\<close>: each planned order contributes, in order, one row per
  allocation of its order item and nothing else. So the view has as many rows as there
  are matching pairs, and where the order ids of Stage A are distinct, the number of
  view rows with the id of a planned order is the number of allocations that match it:
  none for an order without allocation, two for an order with two.
\<close>

theorem orders_inner_join:
  assumes planned: "scheduler_get_planned_order self w ec ei lg = (Inr (Some planned), l1)"
      and scheduled: "scheduler_get_scheduled_order self w l1 = (Inr (Some scheduled), l2)"
      and run: "scheduler_get_orders self w ec ei lg = (Inr view, lg')"
  shows "(\<exists>doOrders.
            view = concat (map (\<lambda>p. map public_columns (overlay_completed doOrders
                     (map (Pair p) (filter (\<lambda>s. so_orderItemId s = po_orderItemsId p) scheduled))))
                   planned)) \<and>
         length view = (\<Sum>p\<leftarrow>planned.
            length (filter (\<lambda>s. so_orderItemId s = po_orderItemsId p) scheduled)) \<and>
         (distinct (map po_id planned) \<longrightarrow>
            (\<forall>p\<in>set planned.
               length (filter (\<lambda>r. ov_Id r = po_id p) view) =
               length (filter (\<lambda>s. so_orderItemId s = po_orderItemsId p) scheduled)))"
proof -
  from run planned scheduled obtain doOrders where
    view: "view = map public_columns (overlay_completed doOrders
                 (merge_inner po_orderItemsId so_orderItemId planned scheduled))"
    unfolding scheduler_get_orders_Inr by auto
  let ?f = "\<lambda>p. map public_columns (overlay_completed doOrders
                     (map (Pair p) (filter (\<lambda>s. so_orderItemId s = po_orderItemsId p) scheduled)))"
  have cc: "view = concat (map ?f planned)"
    unfolding view by (rule view_rows)
  have len: "length (?f p) = length (filter (\<lambda>s. so_orderItemId s = po_orderItemsId p) scheduled)" for p
    by (simp add: overlay_completed_def)
  have "length view = (\<Sum>p\<leftarrow>planned. length (?f p))"
    unfolding cc by (simp add: length_concat comp_def)
  then have total: "length view = (\<Sum>p\<leftarrow>planned.
            length (filter (\<lambda>s. so_orderItemId s = po_orderItemsId p) scheduled))"
    by (simp only: len)
  have count: "length (filter (\<lambda>r. ov_Id r = po_id p) view) =
               length (filter (\<lambda>s. so_orderItemId s = po_orderItemsId p) scheduled)"
    if "distinct (map po_id planned)" "p \<in> set planned" for p
  proof -
    have key: "ov_Id r = po_id q" if "r \<in> set (?f q)" for q r
      using ov_Id_row[OF that] by simp
    have "filter (\<lambda>r. ov_Id r = po_id p) (concat (map ?f planned)) = ?f p"
      by (rule filter_concat_distinct_key[where k = po_id and g = ov_Id, OF that(1) that(2) key])
    then show ?thesis unfolding cc by (simp only: len)
  qed
  from cc total count show ?thesis by blast
qed

lemma overlay_status:
  "map (\<lambda>(p, s). po_status p) (overlay_completed doOrders merged) =
     map (\<lambda>(p, s). if po_orderNumber p \<in> set doOrders then Some ''COMPLETED'' else po_status p) merged"
  by (auto simp: overlay_completed_def split: prod.splits)

text \<open>
  C2. When both stages and the completed lookup succeed, the view is the joined frame
  with the overlay applied and the columns renamed. Every row of it whose order number
  is in the lookup's result has status COMPLETED; the overlay changes nothing of a row
  but its status, which it sets to COMPLETED or leaves as it was; and the statuses of
  the view are those the overlay left.
\<close>

theorem orders_status_overlay:
  assumes planned: "scheduler_get_planned_order self w ec ei lg = (Inr (Some planned), l1)"
      and scheduled: "scheduler_get_scheduled_order self w l1 = (Inr (Some scheduled), l2)"
      and lookup: "do_get_completed_orders self (do_server w)
          (pd_unique (map (\<lambda>(p, s). po_orderNumber p)
             (merge_inner po_orderItemsId so_orderItemId planned scheduled))) l2 = (Inr doOrders, l3)"
  shows "scheduler_get_orders self w ec ei lg =
           (Inr (map public_columns (overlay_completed doOrders
                   (merge_inner po_orderItemsId so_orderItemId planned scheduled))), l3) \<and>
         (\<forall>r\<in>set (map public_columns (overlay_completed doOrders
                   (merge_inner po_orderItemsId so_orderItemId planned scheduled))).
            ov_OrderNumber r \<in> set doOrders \<longrightarrow> ov_Status r = Some ''COMPLETED'') \<and>
         list_all2 (\<lambda>(p, s) (p', s').
              s' = s \<and> p' = p\<lparr>po_status := po_status p'\<rparr> \<and>
              (po_status p' = Some ''COMPLETED'' \<or> po_status p' = po_status p))
           (merge_inner po_orderItemsId so_orderItemId planned scheduled)
           (overlay_completed doOrders (merge_inner po_orderItemsId so_orderItemId planned scheduled)) \<and>
         map ov_Status (map public_columns (overlay_completed doOrders
                   (merge_inner po_orderItemsId so_orderItemId planned scheduled))) =
           map (\<lambda>(p, s). po_status p) (overlay_completed doOrders
                   (merge_inner po_orderItemsId so_orderItemId planned scheduled))"
proof (intro conjI)
  let ?m = "merge_inner po_orderItemsId so_orderItemId planned scheduled"
  show "scheduler_get_orders self w ec ei lg =
           (Inr (map public_columns (overlay_completed doOrders ?m)), l3)"
    unfolding scheduler_get_orders_Inr using assms by blast
  show "\<forall>r\<in>set (map public_columns (overlay_completed doOrders ?m)).
            ov_OrderNumber r \<in> set doOrders \<longrightarrow> ov_Status r = Some ''COMPLETED''"
    by (auto simp: overlay_completed_def public_columns_def split: if_splits)
  show "list_all2 (\<lambda>(p, s) (p', s').
              s' = s \<and> p' = p\<lparr>po_status := po_status p'\<rparr> \<and>
              (po_status p' = Some ''COMPLETED'' \<or> po_status p' = po_status p))
           ?m (overlay_completed doOrders ?m)"
    by (auto simp: overlay_completed_def list_all2_map2 intro!: list_all2_refl)
  show "map ov_Status (map public_columns (overlay_completed doOrders ?m)) =
           map (\<lambda>(p, s). po_status p) (overlay_completed doOrders ?m)"
    by (auto simp: public_columns_def)
qed

lemma planned_frame_kept:
  "planned_order_frame data True ei = Inr rows \<Longrightarrow> r \<in> set rows \<Longrightarrow> status_kept r"
  by (auto simp: planned_order_frame_def Let_def split: if_splits option.splits)

lemma planned_order_kept:
  "scheduler_get_planned_order self w True ei lg = (Inr (Some planned), l1) \<Longrightarrow>
     p \<in> set planned \<Longrightarrow> status_kept p"
proof -
  assume run: "scheduler_get_planned_order self w True ei lg = (Inr (Some planned), l1)"
     and p: "p \<in> set planned"
  from run obtain body where
    "(case body of
             None \<Rightarrow> Inl TypeError
           | Some (OrdersData None) \<Rightarrow> Inr None
           | Some (OrdersData (Some data)) \<Rightarrow>
               (case planned_order_frame data True ei of
                  Inl e \<Rightarrow> Inl e
                | Inr rows \<Rightarrow> Inr (Some rows))
           | Some _ \<Rightarrow> Inl KeyError) = Inr (Some planned)"
    unfolding scheduler_get_planned_order_def io_bind_Inr io_lift_def by auto
  then obtain data where "planned_order_frame data True ei = Inr planned"
    by (auto split: option.splits gql_data.splits sum.splits)
  from planned_frame_kept[OF this p] show ?thesis .
qed

text \<open>
  C10. Under the default arguments the status filter is on: every Stage A row has a
  status outside the exclusion list, and a row of the returned view has status COMPLETED
  only if its order number is in the result of the completed lookup.
\<close>

theorem default_completed_only_from_overlay:
  assumes run: "scheduler_get_orders_default self w lg = (Inr view, lg')"
  shows "\<exists>planned scheduled doOrders l1 l2.
           scheduler_get_planned_order self w True [] lg = (Inr (Some planned), l1) \<and>
           scheduler_get_scheduled_order self w l1 = (Inr (Some scheduled), l2) \<and>
           do_get_completed_orders self (do_server w)
             (pd_unique (map (\<lambda>(p, s). po_orderNumber p)
                (merge_inner po_orderItemsId so_orderItemId planned scheduled))) l2 =
             (Inr doOrders, lg') \<and>
           view = map public_columns (overlay_completed doOrders
                    (merge_inner po_orderItemsId so_orderItemId planned scheduled)) \<and>
           (\<forall>p\<in>set planned. po_status p \<notin> Some ` set excluded_statuses) \<and>
           (\<forall>r\<in>set view. ov_Status r = Some ''COMPLETED'' \<longrightarrow> ov_OrderNumber r \<in> set doOrders)"
proof -
  from run obtain planned scheduled doOrders l1 l2 where
    st: "scheduler_get_planned_order self w True [] lg = (Inr (Some planned), l1)"
        "scheduler_get_scheduled_order self w l1 = (Inr (Some scheduled), l2)"
        "do_get_completed_orders self (do_server w)
             (pd_unique (map (\<lambda>(p, s). po_orderNumber p)
                (merge_inner po_orderItemsId so_orderItemId planned scheduled))) l2 =
             (Inr doOrders, lg')"
    and view: "view = map public_columns (overlay_completed doOrders
                    (merge_inner po_orderItemsId so_orderItemId planned scheduled))"
    unfolding scheduler_get_orders_default_def scheduler_get_orders_Inr by blast
  have kept: "po_status p \<notin> Some ` set excluded_statuses" if "p \<in> set planned" for p
    using planned_order_kept[OF st(1) that] by (auto simp: status_kept_def split: option.splits)
  have "ov_OrderNumber r \<in> set doOrders" if "r \<in> set view" "ov_Status r = Some ''COMPLETED''" for r
  proof -
    from that(1) obtain p s where ps: "(p, s) \<in> set (merge_inner po_orderItemsId so_orderItemId planned scheduled)"
      and r: "r = public_columns (if po_orderNumber p \<in> set doOrders
                     then p\<lparr>po_status := Some ''COMPLETED''\<rparr> else p, s)"
      unfolding view by (auto simp: overlay_completed_def)
    from ps have "p \<in> set planned" by (auto simp: merge_inner_def)
    from kept[OF this] have "po_status p \<noteq> Some ''COMPLETED''"
      by (auto simp: excluded_statuses_def)
    with r that(2) show ?thesis by (auto simp: public_columns_def split: if_splits)
  qed
  with st view kept show ?thesis by blast
qed

lemma sample_planned_run:
  "scheduler_get_planned_order sample_client sample_transport False [] [] =
     (Inr (Some sample_planned), [POST (baseURLSchedulerGraphQL sample_client) (OrdersQuery 9)])"
  by code_simp

lemma sample_scheduled_run:
  "scheduler_get_scheduled_order sample_client sample_transport
       [POST (baseURLSchedulerGraphQL sample_client) (OrdersQuery 9)] =
     (Inr (Some sample_scheduled),
      [POST (baseURLSchedulerGraphQL sample_client) (OrdersQuery 9),
       POST (baseURLSchedulerGraphQL sample_client) (AllocationsQuery 9),
       POST (baseURLSchedulerGraphQL sample_client) (EquipmentsQuery 5)])"
  by code_simp

lemma sample_view_run:
  "scheduler_get_orders sample_client sample_transport False [] [] =
     (Inr sample_view, snd (scheduler_get_orders sample_client sample_transport False [] []))"
  by code_simp

theorem orders_inner_join_witness:
  "distinct (map po_id sample_planned) \<and>
   length sample_planned = 3 \<and> length sample_scheduled = 3 \<and> length sample_view = 3 \<and>
   length (filter (\<lambda>r. ov_Id r = Some (SInt 1)) sample_view) = 2 \<and>
   length (filter (\<lambda>r. ov_Id r = Some (SInt 2)) sample_view) = 0"
proof -
  note T = orders_inner_join[OF sample_planned_run sample_scheduled_run sample_view_run]
  have d: "distinct (map po_id sample_planned)" by code_simp
  with T have c: "\<forall>p\<in>set sample_planned.
      length (filter (\<lambda>r. ov_Id r = po_id p) sample_view) =
      length (filter (\<lambda>s. so_orderItemId s = po_orderItemsId p) sample_scheduled)"
    by blast
  have m: "sample_planned ! 0 \<in> set sample_planned" "sample_planned ! 1 \<in> set sample_planned"
    by code_simp+
  have i: "po_id (sample_planned ! 0) = Some (SInt 1)" "po_id (sample_planned ! 1) = Some (SInt 2)"
    by code_simp+
  have n: "length (filter (\<lambda>s. so_orderItemId s = po_orderItemsId (sample_planned ! 0))
              sample_scheduled) = 2"
     "length (filter (\<lambda>s. so_orderItemId s = po_orderItemsId (sample_planned ! 1))
              sample_scheduled) = 0"
    by code_simp+
  from c m(1) have "length (filter (\<lambda>r. ov_Id r = po_id (sample_planned ! 0)) sample_view) =
      length (filter (\<lambda>s. so_orderItemId s = po_orderItemsId (sample_planned ! 0)) sample_scheduled)"
    by blast
  then have r1: "length (filter (\<lambda>r. ov_Id r = Some (SInt 1)) sample_view) = 2"
    unfolding i n .
  from c m(2) have "length (filter (\<lambda>r. ov_Id r = po_id (sample_planned ! 1)) sample_view) =
      length (filter (\<lambda>s. so_orderItemId s = po_orderItemsId (sample_planned ! 1)) sample_scheduled)"
    by blast
  then have r2: "length (filter (\<lambda>r. ov_Id r = Some (SInt 2)) sample_view) = 0"
    unfolding i n .
  have l: "length sample_planned = 3" "length sample_scheduled = 3" "length sample_view = 3"
    by code_simp+
  from d l r1 r2 show ?thesis by simp
qed

lemma sample_lookup_run:
  "do_get_completed_orders sample_client (do_server sample_transport)
     (pd_unique (map (\<lambda>(p, s). po_orderNumber p)
        (merge_inner po_orderItemsId so_orderItemId sample_planned sample_scheduled)))
     [POST (baseURLSchedulerGraphQL sample_client) (OrdersQuery 9),
      POST (baseURLSchedulerGraphQL sample_client) (AllocationsQuery 9),
      POST (baseURLSchedulerGraphQL sample_client) (EquipmentsQuery 5)] =
   (Inr [''ORD-1''], snd (scheduler_get_orders sample_client sample_transport False [] []))"
  by code_simp

theorem orders_status_overlay_witness:
  "fst (scheduler_get_orders sample_client sample_transport False [] []) = Inr sample_view \<and>
   map ov_OrderNumber sample_view = [''ORD-1'', ''ORD-1'', ''ORD-3''] \<and>
   map po_status sample_planned = [Some ''IN_PROGRESS'', Some ''PLANNED'', Some ''COMPLETED''] \<and>
   map ov_Status sample_view = [Some ''COMPLETED'', Some ''COMPLETED'', Some ''COMPLETED'']"
proof -
  note T = orders_status_overlay[OF sample_planned_run sample_scheduled_run sample_lookup_run]
  have v: "map public_columns (overlay_completed [''ORD-1'']
             (merge_inner po_orderItemsId so_orderItemId sample_planned sample_scheduled)) =
           sample_view"
    by code_simp
  from T[unfolded v] have "scheduler_get_orders sample_client sample_transport False [] [] =
     (Inr sample_view, snd (scheduler_get_orders sample_client sample_transport False [] []))"
    by (rule conjunct1)
  then have "fst (scheduler_get_orders sample_client sample_transport False [] []) = Inr sample_view"
    by (metis fst_conv)
  moreover from T have "\<forall>r\<in>set sample_view.
       ov_OrderNumber r \<in> set [''ORD-1''] \<longrightarrow> ov_Status r = Some ''COMPLETED''"
    unfolding v by blast
  moreover have "map ov_OrderNumber sample_view = [''ORD-1'', ''ORD-1'', ''ORD-3'']"
    "map po_status sample_planned = [Some ''IN_PROGRESS'', Some ''PLANNED'', Some ''COMPLETED'']"
    "map ov_Status sample_view = [Some ''COMPLETED'', Some ''COMPLETED'', Some ''COMPLETED'']"
    by code_simp+
  ultimately show ?thesis by simp
qed

lemma sample_default_run:
  "scheduler_get_orders_default sample_client sample_transport [] =
     (Inr sample_default_view, snd (scheduler_get_orders_default sample_client sample_transport []))"
  by code_simp

lemma sample_default_planned_run:
  "scheduler_get_planned_order sample_client sample_transport True [] [] =
     (Inr (Some (take 2 sample_planned)),
      [POST (baseURLSchedulerGraphQL sample_client) (OrdersQuery 9)])"
  by code_simp

lemma sample_default_lookup_run:
  "fst (do_get_completed_orders sample_client (do_server sample_transport)
     (pd_unique (map (\<lambda>(p, s). po_orderNumber p)
        (merge_inner po_orderItemsId so_orderItemId (take 2 sample_planned) sample_scheduled)))
     [POST (baseURLSchedulerGraphQL sample_client) (OrdersQuery 9),
      POST (baseURLSchedulerGraphQL sample_client) (AllocationsQuery 9),
      POST (baseURLSchedulerGraphQL sample_client) (EquipmentsQuery 5)]) =
   Inr [''ORD-1'']"
  by code_simp

theorem default_completed_only_from_overlay_witness:
  "fst (scheduler_get_orders_default sample_client sample_transport []) = Inr sample_default_view \<and>
   map ov_OrderNumber sample_default_view = [''ORD-1'', ''ORD-1''] \<and>
   map ov_Status sample_default_view = [Some ''COMPLETED'', Some ''COMPLETED''] \<and>
   map po_status (take 2 sample_planned) = [Some ''IN_PROGRESS'', Some ''PLANNED''] \<and>
   list_all (\<lambda>r. ov_OrderNumber r \<in> set [''ORD-1'']) sample_default_view"
proof -
  from default_completed_only_from_overlay[OF sample_default_run]
  obtain planned scheduled doOrders l1 l2 where
    p: "scheduler_get_planned_order sample_client sample_transport True [] [] =
          (Inr (Some planned), l1)" and
    s: "scheduler_get_scheduled_order sample_client sample_transport l1 =
          (Inr (Some scheduled), l2)" and
    d: "do_get_completed_orders sample_client (do_server sample_transport)
             (pd_unique (map (\<lambda>(p, s). po_orderNumber p)
                (merge_inner po_orderItemsId so_orderItemId planned scheduled))) l2 =
             (Inr doOrders,
              snd (scheduler_get_orders_default sample_client sample_transport []))" and
    c: "\<forall>r\<in>set sample_default_view.
          ov_Status r = Some ''COMPLETED'' \<longrightarrow> ov_OrderNumber r \<in> set doOrders"
    by blast
  from p have planned: "planned = take 2 sample_planned"
    and l1: "l1 = [POST (baseURLSchedulerGraphQL sample_client) (OrdersQuery 9)]"
    unfolding sample_default_planned_run by simp_all
  from s have scheduled: "scheduled = sample_scheduled"
    and l2: "l2 = [POST (baseURLSchedulerGraphQL sample_client) (OrdersQuery 9),
       POST (baseURLSchedulerGraphQL sample_client) (AllocationsQuery 9),
       POST (baseURLSchedulerGraphQL sample_client) (EquipmentsQuery 5)]"
    unfolding l1 sample_scheduled_run by simp_all
  from d have "Inr doOrders = (Inr [''ORD-1''] :: error + string list)"
    unfolding planned scheduled l2 using sample_default_lookup_run by (metis fst_conv)
  then have doOrders: "doOrders = [''ORD-1'']" by simp
  have st: "map ov_Status sample_default_view = [Some ''COMPLETED'', Some ''COMPLETED'']"
    by code_simp
  have "list_all (\<lambda>r. ov_Status r = Some ''COMPLETED'') sample_default_view"
    by code_simp
  then have "\<forall>r\<in>set sample_default_view. ov_Status r = Some ''COMPLETED''"
    by (simp add: list_all_iff)
  with c have "\<forall>r\<in>set sample_default_view. ov_OrderNumber r \<in> set [''ORD-1'']"
    unfolding doOrders by blast
  then have "list_all (\<lambda>r. ov_OrderNumber r \<in> set [''ORD-1'']) sample_default_view"
    by (simp add: list_all_iff)
  moreover have "map ov_OrderNumber sample_default_view = [''ORD-1'', ''ORD-1'']"
    "map po_status (take 2 sample_planned) = [Some ''IN_PROGRESS'', Some ''PLANNED'']"
    "fst (scheduler_get_orders_default sample_client sample_transport []) = Inr sample_default_view"
    by code_simp+
  ultimately show ?thesis using st by simp
qed

subsection \<open>The BOM setup view\<close>

lemma set_merge_left:
  "set (merge_left kl kr L R) =
     (\<Union>l\<in>set L. if \<exists>x\<in>set R. kr x = kl l
                   then (\<lambda>x. (l, Some x)) ` {x \<in> set R. kr x = kl l}
                   else {(l, None)})"
proof -
  have one: "set (case filter (\<lambda>r. kr r = kl l) R of [] \<Rightarrow> [(l, None)]
                      | ms \<Rightarrow> map (\<lambda>r. (l, Some r)) ms) =
        (if \<exists>x\<in>set R. kr x = kl l
                   then (\<lambda>x. (l, Some x)) ` {x \<in> set R. kr x = kl l}
                   else {(l, None)})" for l
  proof (cases "filter (\<lambda>r. kr r = kl l) R")
    case Nil
    then have "\<not> (\<exists>x\<in>set R. kr x = kl l)" by (simp add: filter_empty_conv)
    with Nil show ?thesis by simp
  next
    case (Cons a as)
    then have "a \<in> set (filter (\<lambda>r. kr r = kl l) R)" by simp
    then have ex: "\<exists>x\<in>set R. kr x = kl l" by auto
    have "set (map (\<lambda>r. (l, Some r)) (filter (\<lambda>r. kr r = kl l) R)) =
          (\<lambda>x. (l, Some x)) ` {x \<in> set R. kr x = kl l}" by simp
    with Cons ex show ?thesis by simp
  qed
  show ?thesis
    unfolding merge_left_def set_concat set_map image_image one by simp
qed

lemma length_merge_left: "length L \<le> length (merge_left kl kr L R)"
proof (induction L)
  case Nil
  then show ?case by (simp add: merge_left_def)
next
  case (Cons l L)
  have "1 \<le> length (case filter (\<lambda>r. kr r = kl l) R of [] \<Rightarrow> [(l, None)]
                      | ms \<Rightarrow> map (\<lambda>r. (l, Some r)) ms)"
    by (cases "filter (\<lambda>r. kr r = kl l) R") simp_all
  with Cons show ?case by (simp add: merge_left_def)
qed

lemma in_merge_left:
  "(l, r) \<in> set (merge_left kl kr L R) \<longleftrightarrow>
     l \<in> set L \<and>
     (case r of None \<Rightarrow> \<forall>x\<in>set R. kr x \<noteq> kl l
              | Some x \<Rightarrow> x \<in> set R \<and> kr x = kl l)"
proof (cases r)
  case None
  then show ?thesis unfolding set_merge_left by (auto split: if_splits)
next
  case (Some x)
  then show ?thesis unfolding set_merge_left by (auto split: if_splits)
qed

lemma left_row_in_merge_left:
  assumes "l \<in> set L"
  shows "\<exists>r. (l, r) \<in> set (merge_left kl kr L R)"
proof (cases "\<exists>x\<in>set R. kr x = kl l")
  case True
  then obtain x where "x \<in> set R" "kr x = kl l" by blast
  with assms have "(l, Some x) \<in> set (merge_left kl kr L R)" by (simp add: in_merge_left)
  then show ?thesis ..
next
  case False
  with assms have "(l, None) \<in> set (merge_left kl kr L R)" by (simp add: in_merge_left)
  then show ?thesis ..
qed

lemma fst_set_merge_left: "fst ` set (merge_left kl kr L R) = set L"
proof
  show "fst ` set (merge_left kl kr L R) \<subseteq> set L"
    by (auto simp: in_merge_left)
  show "set L \<subseteq> fst ` set (merge_left kl kr L R)"
  proof
    fix l assume "l \<in> set L"
    from left_row_in_merge_left[OF this] obtain r where "(l, r) \<in> set (merge_left kl kr L R)" ..
    then show "l \<in> fst ` set (merge_left kl kr L R)" by force
  qed
qed

lemma merge_left_semantics:
  "left_join_semantics kl kr L R (merge_left kl kr L R)"
  unfolding left_join_semantics_def
proof (intro conjI)
  show "length L \<le> length (merge_left kl kr L R)" by (rule length_merge_left)
  show "\<forall>l\<in>set L. \<exists>r. (l, r) \<in> set (merge_left kl kr L R)"
    using left_row_in_merge_left by fast
  show "\<forall>(l, r)\<in>set (merge_left kl kr L R). l \<in> set L \<and>
        (case r of
           None \<Rightarrow> \<forall>x\<in>set R. kr x \<noteq> kl l
         | Some x \<Rightarrow> x \<in> set R \<and> kr x = kl l)"
    by (auto simp: in_merge_left)
  show "\<forall>l\<in>set L. (\<forall>x\<in>set R. kr x \<noteq> kl l) \<longrightarrow> (l, None) \<in> set (merge_left kl kr L R)"
    by (simp add: in_merge_left)
qed

text \<open>
  C5. Each of the five merges is a left join: on any left input its output has at least
  as many rows as the left input, holds every left row, pairs a left row only with
  right rows of the same key, and holds a left row that no right row matches with null
  right-hand fields. Along the chain the row count never drops below the number of
  operations, and the operations of the final frame are exactly those fetched.
\<close>

theorem bom_left_join_chain:
  fixes operations_df :: "'x operation_scheme list"
  shows
  "left_join_semantics key1 rt_operationCode operations_df routes_df
     (bom_merge1 operations_df routes_df) \<and>
   left_join_semantics key2 (\<lambda>m. Some (ml_externalId m)) (j1 :: 'x joined1 list) materials_df
     (bom_merge2 j1 materials_df) \<and>
   left_join_semantics key3 (\<lambda>s. (sg_operationCode s, sg_routeCode s)) (j2 :: 'x joined2 list)
     segments_df (bom_merge3 j2 segments_df) \<and>
   left_join_semantics key4 (\<lambda>e. (se_operationCode e, se_routeCode e, se_segmentCode e))
     (j3 :: 'x joined3 list) equipments_df (bom_merge4 j3 equipments_df) \<and>
   left_join_semantics key5 (\<lambda>m. (sm_operationCode m, sm_routeCode m, sm_segmentCode m))
     (j4 :: 'x joined4 list) segment_materials_df (bom_merge5 j4 segment_materials_df) \<and>
   length operations_df \<le>
     length (bom_join operations_df routes_df materials_df segments_df equipments_df
               segment_materials_df) \<and>
   set operations_df =
     (\<lambda>j. fst (fst (fst (fst (fst j))))) `
       set (bom_join operations_df routes_df materials_df segments_df equipments_df
              segment_materials_df)"
proof (intro conjI)
  show "left_join_semantics key1 rt_operationCode operations_df routes_df
     (bom_merge1 operations_df routes_df)"
    unfolding bom_merge1_def by (rule merge_left_semantics)
  show "left_join_semantics key2 (\<lambda>m. Some (ml_externalId m)) j1 materials_df
     (bom_merge2 j1 materials_df)"
    unfolding bom_merge2_def by (rule merge_left_semantics)
  show "left_join_semantics key3 (\<lambda>s. (sg_operationCode s, sg_routeCode s)) j2
     segments_df (bom_merge3 j2 segments_df)"
    unfolding bom_merge3_def by (rule merge_left_semantics)
  show "left_join_semantics key4 (\<lambda>e. (se_operationCode e, se_routeCode e, se_segmentCode e))
     j3 equipments_df (bom_merge4 j3 equipments_df)"
    unfolding bom_merge4_def by (rule merge_left_semantics)
  show "left_join_semantics key5 (\<lambda>m. (sm_operationCode m, sm_routeCode m, sm_segmentCode m))
     j4 segment_materials_df (bom_merge5 j4 segment_materials_df)"
    unfolding bom_merge5_def by (rule merge_left_semantics)
  let ?j1 = "bom_merge1 operations_df routes_df"
  let ?j2 = "bom_merge2 ?j1 materials_df"
  let ?j3 = "bom_merge3 ?j2 segments_df"
  let ?j4 = "bom_merge4 ?j3 equipments_df"
  let ?j5 = "bom_merge5 ?j4 segment_materials_df"
  have "length operations_df \<le> length ?j1" unfolding bom_merge1_def by (rule length_merge_left)
  also have "\<dots> \<le> length ?j2" unfolding bom_merge2_def by (rule length_merge_left)
  also have "\<dots> \<le> length ?j3" unfolding bom_merge3_def by (rule length_merge_left)
  also have "\<dots> \<le> length ?j4" unfolding bom_merge4_def by (rule length_merge_left)
  also have "\<dots> \<le> length ?j5" unfolding bom_merge5_def by (rule length_merge_left)
  finally show "length operations_df \<le>
     length (bom_join operations_df routes_df materials_df segments_df equipments_df
               segment_materials_df)"
    unfolding bom_join_def .
  have "(\<lambda>j. fst (fst (fst (fst (fst j))))) ` set ?j5 = fst ` fst ` fst ` fst ` fst ` set ?j5"
    by (simp only: image_image)
  also have "fst ` set ?j5 = set ?j4" unfolding bom_merge5_def by (rule fst_set_merge_left)
  also have "fst ` set ?j4 = set ?j3" unfolding bom_merge4_def by (rule fst_set_merge_left)
  also have "fst ` set ?j3 = set ?j2" unfolding bom_merge3_def by (rule fst_set_merge_left)
  also have "fst ` set ?j2 = set ?j1" unfolding bom_merge2_def by (rule fst_set_merge_left)
  also have "fst ` set ?j1 = set operations_df" unfolding bom_merge1_def by (rule fst_set_merge_left)
  finally show "set operations_df =
     (\<lambda>j. fst (fst (fst (fst (fst j))))) `
       set (bom_join operations_df routes_df materials_df segments_df equipments_df
              segment_materials_df)"
    unfolding bom_join_def by (rule sym)
qed

lemma sample_merge1:
  "bom_merge1 sample_operations sample_routes =
     [(sample_operations ! 0, None), (sample_operations ! 1, Some (sample_routes ! 0))]"
  by code_simp

theorem bom_left_join_chain_witness:
  "(sample_operations ! 0, None) \<in> set (bom_merge1 sample_operations sample_routes) \<and>
   list_all (\<lambda>x. rt_operationCode x \<noteq> key1 (sample_operations ! 0)) sample_routes \<and>
   length sample_operations = 2 \<and>
   length (bom_merge1 sample_operations sample_routes) = 2 \<and>
   length (bom_join sample_operations sample_routes
             [\<lparr>ml_externalId = ''OP-A'', ml_description = ''Widget'', ml_materialGroup = ''G1''\<rparr>]
             sample_segments sample_segment_equipments sample_segment_materials) = 3"
proof -
  have mem: "sample_operations ! 0 \<in> set sample_operations" by code_simp
  have unmatched: "list_all (\<lambda>x. rt_operationCode x \<noteq> key1 (sample_operations ! 0)) sample_routes"
    by code_simp
  then have no: "\<forall>x\<in>set sample_routes. rt_operationCode x \<noteq> key1 (sample_operations ! 0)"
    by (simp add: list_all_iff)
  from bom_left_join_chain[of sample_operations sample_routes]
  have "left_join_semantics key1 rt_operationCode sample_operations sample_routes
          (bom_merge1 sample_operations sample_routes)"
    by (rule conjunct1)
  with mem no have "(sample_operations ! 0, None) \<in> set (bom_merge1 sample_operations sample_routes)"
    unfolding left_join_semantics_def by blast
  moreover have "length sample_operations = 2"
    "length (bom_merge1 sample_operations sample_routes) = 2"
    "length (bom_join sample_operations sample_routes
             [\<lparr>ml_externalId = ''OP-A'', ml_description = ''Widget'', ml_materialGroup = ''G1''\<rparr>]
             sample_segments sample_segment_equipments sample_segment_materials) = 3"
    by code_simp+
  ultimately show ?thesis using unmatched by simp
qed

lemma fetch_scheduler_Inr:
  "fetch_scheduler self srv e lg = (Inr v, lg') \<longleftrightarrow>
     checked_json (srv (avoid_pagination (baseURLScheduler self @ e))) = Inr v \<and>
     lg' = lg @ [GET (avoid_pagination (baseURLScheduler self @ e))]"
  by (auto simp: fetch_scheduler_def Let_def)

lemma scheduler_get_bom_setup_Inr:
  assumes "scheduler_get_bom_setup P cols self w lg = (Inr view, lg')"
  shows "\<exists>ops routes mats segs eqs sms l1 l2 l3 l4 l5.
           scheduler_get_operations self w lg = (Inr ops, l1) \<and>
           scheduler_get_routes self w l1 = (Inr routes, l2) \<and>
           scheduler_get_materials self w l2 = (Inr mats, l3) \<and>
           scheduler_get_segments self w l3 = (Inr segs, l4) \<and>
           scheduler_get_equipments self w l4 = (Inr eqs, l5) \<and>
           scheduler_get_segment_materials self w l5 = (Inr sms, lg') \<and>
           ops \<noteq> [] \<and> routes \<noteq> [] \<and> segs \<noteq> [] \<and> eqs \<noteq> [] \<and> sms \<noteq> [] \<and>
           view = bom_view_of P cols (bom_join ops routes mats segs eqs sms)"
  using assms unfolding scheduler_get_bom_setup_def io_bind_Inr
  by (auto simp: io_raise_def io_return_def split: if_splits)



text \<open>
  C4 (amended). The view has the seventeen selected columns under their labels, and
  its rows, which are those of the merged frame, are sorted ascending by the key
  (Operation Code, Segment, Route, Material Code) in that order, nulls last, rows of
  equal key staying in the order of the merged frame.
\<close>

theorem bom_view_columns_sorted:
  assumes "scheduler_get_bom_setup P cols self w lg = (Inr view, lg')"
  shows "bv_columns view =
           [''Quantity'', ''Operation Code'', ''Operation External ID'',
            ''Operation Description'', ''Operation Material Group'', ''Segment'', ''Route'',
            ''Equipment Class ID'', ''Equipment Class'', ''Material Code'',
            ''Material Description'', ''Material Quantity'', ''Material Unit of Measure'',
            ''Material Use'', ''Fixed Duration'', ''Rate'', ''Rate per Hour''] \<and>
         length (bv_columns view) = 17 \<and>
         sorted (map (\<lambda>r. (nulls_last (br_Operation_Code r), nulls_last (br_Segment r),
                            nulls_last (br_Route r), nulls_last (br_Material_Code r)))
                     (bv_rows view)) \<and>
         (\<exists>ops routes mats segs eqs sms.
            set (bv_rows view) =
              (\<lambda>j. derive_row P (cols j)) ` set (bom_join ops routes mats segs eqs sms) \<and>
            length (bv_rows view) = length (bom_join ops routes mats segs eqs sms) \<and>
            (\<forall>k. filter (\<lambda>r. bom_sort_key r = k) (bv_rows view) =
                 filter (\<lambda>r. bom_sort_key r = k)
                   (map (\<lambda>j. derive_row P (cols j)) (bom_join ops routes mats segs eqs sms))))"
proof -
  from scheduler_get_bom_setup_Inr[OF assms] obtain ops routes mats segs eqs sms where
    view: "view = bom_view_of P cols (bom_join ops routes mats segs eqs sms)" by blast
  have cols: "rename_columns bom_labels selected_columns =
           [''Quantity'', ''Operation Code'', ''Operation External ID'',
            ''Operation Description'', ''Operation Material Group'', ''Segment'', ''Route'',
            ''Equipment Class ID'', ''Equipment Class'', ''Material Code'',
            ''Material Description'', ''Material Quantity'', ''Material Unit of Measure'',
            ''Material Use'', ''Fixed Duration'', ''Rate'', ''Rate per Hour'']"
    by (simp add: rename_columns_def bom_labels_def selected_columns_def)
  have key: "(\<lambda>r. (nulls_last (br_Operation_Code r), nulls_last (br_Segment r),
                            nulls_last (br_Route r), nulls_last (br_Material_Code r))) = bom_sort_key"
    by (simp add: bom_sort_key_def fun_eq_iff)
  show ?thesis
    unfolding view bom_view_of_def key
    by (intro conjI exI[of _ ops] exI[of _ routes]
       exI[of _ mats] exI[of _ segs] exI[of _ eqs] exI[of _ sms])
       (simp_all add: cols sort_key_stable)
qed

lemma sample_bom_run:
  "scheduler_get_bom_setup sample_parse_float sample_named_columns sample_client sample_rest [] =
     (Inr sample_bom_view,
      snd (scheduler_get_bom_setup sample_parse_float sample_named_columns sample_client
             sample_rest []))"
  by code_simp



theorem bom_view_columns_sorted_witness:
  "bv_columns sample_bom_view =
     [''Quantity'', ''Operation Code'', ''Operation External ID'',
      ''Operation Description'', ''Operation Material Group'', ''Segment'', ''Route'',
      ''Equipment Class ID'', ''Equipment Class'', ''Material Code'',
      ''Material Description'', ''Material Quantity'', ''Material Unit of Measure'',
      ''Material Use'', ''Fixed Duration'', ''Rate'', ''Rate per Hour''] \<and>
   sorted (map bom_sort_key (bv_rows sample_bom_view)) \<and>
   map br_Operation_Code (bv_rows sample_bom_view) = [Some ''OP-A'', Some ''OP-A'', Some ''OP-B''] \<and>
   map br_Segment (bv_rows sample_bom_view) = [Some ''S1'', Some ''S2'', None]"
proof -
  note T = bom_view_columns_sorted[OF sample_bom_run]
  have key: "(\<lambda>r. (nulls_last (br_Operation_Code r), nulls_last (br_Segment r),
                            nulls_last (br_Route r), nulls_last (br_Material_Code r))) = bom_sort_key"
    by (simp add: bom_sort_key_def fun_eq_iff)
  from T have "sorted (map bom_sort_key (bv_rows sample_bom_view))"
    unfolding key by blast
  moreover from T have "bv_columns sample_bom_view =
     [''Quantity'', ''Operation Code'', ''Operation External ID'',
      ''Operation Description'', ''Operation Material Group'', ''Segment'', ''Route'',
      ''Equipment Class ID'', ''Equipment Class'', ''Material Code'',
      ''Material Description'', ''Material Quantity'', ''Material Unit of Measure'',
      ''Material Use'', ''Fixed Duration'', ''Rate'', ''Rate per Hour'']"
    by blast
  moreover have
    "map br_Operation_Code (bv_rows sample_bom_view) = [Some ''OP-A'', Some ''OP-A'', Some ''OP-B'']"
    "map br_Segment (bv_rows sample_bom_view) = [Some ''S1'', Some ''S2'', None]"
    by code_simp+
  ultimately show ?thesis by simp
qed

text \<open>
  The claim as stated fails on the count: the source selects seventeen columns, and so
  does every view, the sample's among them.
\<close>

theorem bom_view_has_seventeen_columns:
  "length selected_columns = 17 \<and>
   length (bv_columns sample_bom_view) = 17 \<and>
   length (bv_columns sample_bom_view) \<noteq> 13"
  by code_simp

end
